theory Spec2Isabelle
  imports Main "HOL-Library.Word"
begin

section \<open>JavaScript strings\<close>

text \<open>
  A JavaScript string is modelled as a \<^typ>\<open>string\<close>, read as the UTF-8 bytes of its
  text. All separators, prefixes and markers the program looks for are ASCII, so the
  positions it computes agree with the ones a sequence of UTF-16 code units would give
  on ASCII text. \<open>trim\<close> removes the ASCII white space and line terminators
  (the Unicode ones beyond ASCII are not singled out in this byte model).
\<close>

abbreviation LF :: char where "LF \<equiv> CHR 0x0A"

definition startsWith :: "string \<Rightarrow> string \<Rightarrow> bool" where
  "startsWith s p = (take (length p) s = p)"

definition endsWith :: "string \<Rightarrow> string \<Rightarrow> bool" where
  "endsWith s p = (length p \<le> length s \<and> drop (length s - length p) s = p)"

fun str_includes :: "string \<Rightarrow> string \<Rightarrow> bool" where
  "str_includes [] p = (p = [])"
| "str_includes (c # s) p = (startsWith (c # s) p \<or> str_includes s p)"

text \<open>\<open>s.split(sep)\<close> for a separator of one character: never the empty list.\<close>

fun split :: "char \<Rightarrow> string \<Rightarrow> string list" where
  "split sep [] = [[]]"
| "split sep (c # s) =
     (if c = sep then [] # split sep s
      else (c # hd (split sep s)) # tl (split sep s))"

text \<open>\<open>parts.join(sep)\<close>.\<close>

fun join :: "string \<Rightarrow> string list \<Rightarrow> string" where
  "join sep [] = []"
| "join sep [x] = x"
| "join sep (x # y # ys) = x @ sep @ join sep (y # ys)"

definition isWhiteSpace :: "char \<Rightarrow> bool" where
  "isWhiteSpace c = (c = CHR 0x09 \<or> c = CHR 0x0A \<or> c = CHR 0x0B \<or> c = CHR 0x0C
     \<or> c = CHR 0x0D \<or> c = CHR 0x20)"

definition trimStart :: "string \<Rightarrow> string" where
  "trimStart s = dropWhile isWhiteSpace s"

definition trimEnd :: "string \<Rightarrow> string" where
  "trimEnd s = rev (dropWhile isWhiteSpace (rev s))"

definition trim :: "string \<Rightarrow> string" where
  "trim s = trimEnd (trimStart s)"

text \<open>The code of a character (a byte).\<close>

definition code :: "char \<Rightarrow> nat" where
  "code c = of_char c"

definition isDigit :: "char \<Rightarrow> bool" where
  "isDigit c = (48 \<le> code c \<and> code c \<le> 57)"

definition digitValue :: "char \<Rightarrow> nat" where
  "digitValue c = code c - 48"

text \<open>
  \<open>parseInt(s, 10)\<close>: leading white space and one sign are skipped, the longest run of
  decimal digits is read, and the result is \<open>NaN\<close> (here \<open>None\<close>) when there is no digit.
\<close>

definition parseInt10 :: "string \<Rightarrow> int option" where
  "parseInt10 s =
     (let s1 = trimStart s;
          neg = (s1 \<noteq> [] \<and> hd s1 = CHR ''-'');
          s2 = (if s1 \<noteq> [] \<and> (hd s1 = CHR ''-'' \<or> hd s1 = CHR ''+'') then tl s1 else s1);
          ds = takeWhile isDigit s2;
          n = int (foldl (\<lambda>a d. 10 * a + digitValue d) 0 ds)
      in if ds = [] then None else Some (if neg then - n else n))"

text \<open>\<open>x || 0\<close> for a number \<open>x\<close>: \<open>NaN\<close> and \<open>0\<close> are falsy.\<close>

definition orZero :: "int option \<Rightarrow> int" where
  "orZero x = (case x of None \<Rightarrow> 0 | Some n \<Rightarrow> n)"

text \<open>\<open>s.replace(/"/g, '\\"')\<close>: a backslash before every double quote.\<close>

fun escapeQuotes :: "string \<Rightarrow> string" where
  "escapeQuotes [] = []"
| "escapeQuotes (c # s) =
     (if c = CHR 0x22 then CHR 0x5C # CHR 0x22 # escapeQuotes s else c # escapeQuotes s)"


section \<open>Local Repository Manager (src/utils: localRepoManager)\<close>

text \<open>
  The manager talks to three things outside the program: the file system
  (\<open>fs.existsSync\<close>, \<open>path.join\<close>), the version-control binary (\<open>exec\<close>) and the
  editor (\<open>showInputBox\<close>, the notification messages). They are the fields of an
  environment over an abstract world \<open>'w\<close>; a call may change the world. \<open>exec\<close>
  answers \<open>Inr stdout\<close> when the command exits with 0 and \<open>Inl e\<close> when the promise is
  rejected, \<open>e\<close> being the text \<open>${error}\<close> renders.
\<close>

record 'w platform =
  path_join :: "string \<Rightarrow> string \<Rightarrow> string"
  existsSync :: "'w \<Rightarrow> string \<Rightarrow> bool"
  exec :: "'w \<Rightarrow> string \<Rightarrow> string \<Rightarrow> (string + string) \<times> 'w"
  showInputBox :: "'w \<Rightarrow> string option \<times> 'w"

datatype notification =
    InformationMessage string
  | ErrorMessage string

text \<open>
  The observable state: the world, every command handed to \<open>exec\<close> with its working
  directory (in order), and every notification shown (in order).
\<close>

record 'w host =
  world :: 'w
  commands :: "(string \<times> string) list"
  messages :: "notification list"

definition run_exec ::
  "'w platform \<Rightarrow> string \<Rightarrow> string \<Rightarrow> 'w host \<Rightarrow> (string + string) \<times> 'w host" where
  "run_exec env cmd cwd h =
     (case exec env (world h) cmd cwd of
        (r, w') \<Rightarrow> (r, h\<lparr>world := w', commands := commands h @ [(cmd, cwd)]\<rparr>))"

definition notify :: "notification \<Rightarrow> 'w host \<Rightarrow> 'w host" where
  "notify m h = h\<lparr>messages := messages h @ [m]\<rparr>"

record SyncStatus =
  isDirty :: bool
  ahead :: int
  behind :: int
  untracked :: "string list"

definition zeroStatus :: SyncStatus where
  "zeroStatus = \<lparr>isDirty = False, ahead = 0, behind = 0, untracked = []\<rparr>"

definition gitStatusCmd :: string where
  "gitStatusCmd = ''git status --porcelain''"

definition aheadCmd :: string where
  "aheadCmd = ''git rev-list --left-only --count '' @ [CHR 0x40] @ ''{u}...HEAD''"

definition behindCmd :: string where
  "behindCmd = ''git rev-list --right-only --count '' @ [CHR 0x40] @ ''{u}...HEAD''"

text \<open>The two values getSyncStatus computes from the status output (index.ts:104-111).\<close>

definition untrackedOf :: "string \<Rightarrow> string list" where
  "untrackedOf statusOutput =
     map (drop 3) (filter (\<lambda>line. startsWith line ''??'') (split LF statusOutput))"

definition isDirtyOf :: "string \<Rightarrow> bool" where
  "isDirtyOf statusOutput =
     (length statusOutput > 0
      \<and> \<not> list_all (\<lambda>line. length line = 0) (untrackedOf statusOutput))"

text \<open>
  getSyncStatus (index.ts:86-143). The inner \<open>try\<close> around the two count queries keeps
  what was assigned before the failing query; the outer \<open>catch\<close> shows an error message
  and returns the zeroed status.
\<close>

definition getSyncStatus ::
  "'w platform \<Rightarrow> string \<Rightarrow> 'w host \<Rightarrow> SyncStatus \<times> 'w host" where
  "getSyncStatus env repoPath h =
     (if \<not> existsSync env (world h) (path_join env repoPath ''.git'') then (zeroStatus, h)
      else
        (case run_exec env gitStatusCmd repoPath h of
           (Inl e, h1) \<Rightarrow>
             (zeroStatus, notify (ErrorMessage (''Error getting sync status: '' @ e)) h1)
         | (Inr statusOutput, h1) \<Rightarrow>
             (let untracked' = untrackedOf statusOutput;
                  isDirty' = isDirtyOf statusOutput
              in case run_exec env aheadCmd repoPath h1 of
                   (Inl _, h2) \<Rightarrow>
                     (\<lparr>isDirty = isDirty', ahead = 0, behind = 0, untracked = untracked'\<rparr>, h2)
                 | (Inr aheadOutput, h2) \<Rightarrow>
                     (let ahead' = orZero (parseInt10 (trim aheadOutput))
                      in case run_exec env behindCmd repoPath h2 of
                           (Inl _, h3) \<Rightarrow>
                             (\<lparr>isDirty = isDirty', ahead = ahead', behind = 0,
                               untracked = untracked'\<rparr>, h3)
                         | (Inr behindOutput, h3) \<Rightarrow>
                             (\<lparr>isDirty = isDirty', ahead = ahead',
                               behind = orZero (parseInt10 (trim behindOutput)),
                               untracked = untracked'\<rparr>, h3)))))"

definition noChangesMessage :: string where
  "noChangesMessage = [CHR 0xE2, CHR 0x9C, CHR 0x93] @ '' No changes to sync''"

definition syncedMessage :: string where
  "syncedMessage = [CHR 0xE2, CHR 0x9C, CHR 0x93] @ '' Changes synced to Gitea''"

definition commitCmd :: "string \<Rightarrow> string" where
  "commitCmd message = ''git commit -m '' @ [CHR 0x22] @ escapeQuotes message @ [CHR 0x22]"

definition pushCmd :: "string \<Rightarrow> string" where
  "pushCmd branch = ''git push origin '' @ branch"

definition syncFailed :: "string \<Rightarrow> 'w host \<Rightarrow> 'w host" where
  "syncFailed e h = notify (ErrorMessage (''Sync failed: '' @ e)) h"

text \<open>
  syncToGitea (index.ts:148-187). \<open>if (!message) return\<close> leaves on a cancelled prompt
  and on the empty message alike.
\<close>

definition syncToGitea :: "'w platform \<Rightarrow> string \<Rightarrow> string \<Rightarrow> 'w host \<Rightarrow> 'w host" where
  "syncToGitea env repoPath branch h =
     (case run_exec env ''git add -A'' repoPath h of
        (Inl e, h1) \<Rightarrow> syncFailed e h1
      | (Inr _, h1) \<Rightarrow>
          (case run_exec env gitStatusCmd repoPath h1 of
             (Inl e, h2) \<Rightarrow> syncFailed e h2
           | (Inr statusOutput, h2) \<Rightarrow>
               if length (trim statusOutput) = 0
               then notify (InformationMessage noChangesMessage) h2
               else
                 (case showInputBox env (world h2) of
                    (answer, w3) \<Rightarrow>
                      (let h3 = h2\<lparr>world := w3\<rparr>
                       in case answer of
                            None \<Rightarrow> h3
                          | Some message \<Rightarrow>
                              if message = [] then h3
                              else
                                (case run_exec env (commitCmd message) repoPath h3 of
                                   (Inl e, h4) \<Rightarrow> syncFailed e h4
                                 | (Inr _, h4) \<Rightarrow>
                                     (case run_exec env (pushCmd branch) repoPath h4 of
                                        (Inl e, h5) \<Rightarrow> syncFailed e h5
                                      | (Inr _, h5) \<Rightarrow>
                                          notify (InformationMessage syncedMessage) h5))))))"

text \<open>
  What the property of two calls in a row takes from its surroundings: the working copy
  changes only through the commands the manager issues. \<open>cleanAfterStaging\<close> says that,
  in world \<open>w\<close>, staging everything and asking for the status succeeds and reports
  nothing. \<open>noInterveningChange\<close> says that (1) staging and querying a working copy with
  nothing to report leaves it so, and (2) once everything was staged, a successful
  commit of it followed by a successful push leaves nothing to stage.
\<close>

definition cleanAfterStaging :: "'w platform \<Rightarrow> string \<Rightarrow> 'w \<Rightarrow> bool" where
  "cleanAfterStaging env repoPath w =
     (case exec env w ''git add -A'' repoPath of
        (Inl _, _) \<Rightarrow> False
      | (Inr _, w1) \<Rightarrow>
          (case exec env w1 gitStatusCmd repoPath of
             (Inl _, _) \<Rightarrow> False
           | (Inr out, _) \<Rightarrow> trim out = []))"

definition noInterveningChange :: "'w platform \<Rightarrow> string \<Rightarrow> string \<Rightarrow> bool" where
  "noInterveningChange env repoPath branch =
     (\<forall>w a w1 out w2.
        exec env w ''git add -A'' repoPath = (Inr a, w1) \<and>
        exec env w1 gitStatusCmd repoPath = (Inr out, w2) \<longrightarrow>
        (trim out = [] \<longrightarrow> cleanAfterStaging env repoPath w2) \<and>
        (\<forall>m w3 b w4 c w5.
           showInputBox env w2 = (Some m, w3) \<and>
           exec env w3 (commitCmd m) repoPath = (Inr b, w4) \<and>
           exec env w4 (pushCmd branch) repoPath = (Inr c, w5) \<longrightarrow>
           cleanAfterStaging env repoPath w5))"

text \<open>
  A working copy to run the manager on: its world is the text the status query prints
  (the uncommitted changes); a commit empties it and fails when there is nothing to
  commit; the prompt is answered with the default message.
\<close>

definition sampleRepo :: "string platform" where
  "sampleRepo =
     \<lparr>path_join = (\<lambda>a b. a @ ''/'' @ b),
      existsSync = (\<lambda>w p. True),
      exec = (\<lambda>w cmd cwd.
        if cmd = gitStatusCmd then (Inr w, w)
        else if startsWith cmd ''git commit''
          then (if w = [] then (Inl ''Error: nothing to commit'', w) else (Inr [], []))
        else if startsWith cmd ''git rev-list'' then (Inr (''0'' @ [LF]), w)
        else (Inr [], w)),
      showInputBox = (\<lambda>w. (Some ''[auto-sync] Updated from local'', w))\<rparr>"

definition plainFolder :: "string platform" where
  "plainFolder = sampleRepo\<lparr>existsSync := (\<lambda>w p. False)\<rparr>"


section \<open>The platform's URL class\<close>

text \<open>
  \<open>new URL(input)\<close> (no base URL) as the WHATWG URL Standard's basic URL parser
  defines it, for the parts parseGiteaUri reads: the scheme, the host, the path and the
  query. A URL whose scheme is special (http, https, ws, wss, ftp, file) is parsed by
  rules of its own (domains, IPv4 addresses, default ports); of such an input only the
  scheme is modelled. The parser of IPv6 literals (\<open>[...]\<close> hosts) is a parameter
  \<open>ipv6\<close>, which gives the serialised address or fails. Characters are bytes, so
  percent-encoding a character beyond ASCII encodes each byte of its UTF-8 form, as
  the standard says.
\<close>

definition isAlpha :: "char \<Rightarrow> bool" where
  "isAlpha c = ((65 \<le> code c \<and> code c \<le> 90) \<or> (97 \<le> code c \<and> code c \<le> 122))"

definition toLower :: "char \<Rightarrow> char" where
  "toLower c = (if 65 \<le> code c \<and> code c \<le> 90 then char_of (code c + 32) else c)"

definition isSchemeChar :: "char \<Rightarrow> bool" where
  "isSchemeChar c = (isAlpha c \<or> isDigit c \<or> c = CHR ''+'' \<or> c = CHR ''-'' \<or> c = CHR ''.'')"

definition isC0ControlOrSpace :: "char \<Rightarrow> bool" where
  "isC0ControlOrSpace c = (code c \<le> 32)"

definition isTabOrNewline :: "char \<Rightarrow> bool" where
  "isTabOrNewline c = (c = CHR 0x09 \<or> c = CHR 0x0A \<or> c = CHR 0x0D)"

definition hexDigit :: "nat \<Rightarrow> char" where
  "hexDigit n = ''0123456789ABCDEF'' ! n"

definition percentEncodeByte :: "char \<Rightarrow> string" where
  "percentEncodeByte c = [CHR ''%'', hexDigit (code c div 16), hexDigit (code c mod 16)]"

definition percentEncode :: "(char \<Rightarrow> bool) \<Rightarrow> string \<Rightarrow> string" where
  "percentEncode inSet s = concat (map (\<lambda>c. if inSet c then percentEncodeByte c else [c]) s)"

definition inC0ControlSet :: "char \<Rightarrow> bool" where
  "inC0ControlSet c = (code c < 32 \<or> code c > 126)"

definition inQuerySet :: "char \<Rightarrow> bool" where
  "inQuerySet c = (inC0ControlSet c \<or> c = CHR 0x20 \<or> c = CHR 0x22 \<or> c = CHR ''#''
     \<or> c = CHR ''<'' \<or> c = CHR ''>'')"

definition inPathSet :: "char \<Rightarrow> bool" where
  "inPathSet c = (inQuerySet c \<or> c = CHR ''?'' \<or> c = CHR ''^'' \<or> c = CHR 0x60
     \<or> c = CHR ''{'' \<or> c = CHR ''}'')"

definition isForbiddenHostCodePoint :: "char \<Rightarrow> bool" where
  "isForbiddenHostCodePoint c =
     (c = CHR 0x00 \<or> c = CHR 0x09 \<or> c = CHR 0x0A \<or> c = CHR 0x0D \<or> c = CHR 0x20
      \<or> c = CHR ''#'' \<or> c = CHR ''/'' \<or> c = CHR '':'' \<or> c = CHR ''<'' \<or> c = CHR ''>''
      \<or> c = CHR ''?'' \<or> c = CHR 0x40 \<or> c = CHR ''['' \<or> c = CHR 0x5C \<or> c = CHR '']''
      \<or> c = CHR ''^'' \<or> c = CHR ''|'')"

text \<open>The path of a URL: an opaque string, or a list of segments.\<close>

datatype url_path = OpaquePath string | Segments "string list"

record URL =
  scheme :: string
  host :: "string option"
  urlPath :: url_path
  urlQuery :: "string option"

datatype url_result =
    InvalidURL
  | SpecialScheme string
  | ParsedURL URL

text \<open>Leading and trailing C0 controls and spaces go; tabs and newlines go everywhere.\<close>

definition sanitize :: "string \<Rightarrow> string" where
  "sanitize input =
     filter (\<lambda>c. \<not> isTabOrNewline c)
       (rev (dropWhile isC0ControlOrSpace (rev (dropWhile isC0ControlOrSpace input))))"

text \<open>
  Scheme start state and scheme state: a letter, then letters, digits, \<open>+\<close>, \<open>-\<close>, \<open>.\<close>
  up to a colon; anything else fails, there being no base URL. The result is the
  lower-cased scheme and the text after the colon.
\<close>

definition parseScheme :: "string \<Rightarrow> (string \<times> string) option" where
  "parseScheme s =
     (if s = [] \<or> \<not> isAlpha (hd s) then None
      else (case dropWhile isSchemeChar s of
              [] \<Rightarrow> None
            | c # r \<Rightarrow> if c = CHR '':'' then Some (map toLower (takeWhile isSchemeChar s), r)
                       else None))"

definition isSpecialScheme :: "string \<Rightarrow> bool" where
  "isSpecialScheme s = (s = ''ftp'' \<or> s = ''file'' \<or> s = ''http'' \<or> s = ''https''
     \<or> s = ''ws'' \<or> s = ''wss'')"

text \<open>
  Host state: the buffer runs to the first colon outside square brackets; what follows
  that colon is the port.
\<close>

fun scanHost :: "bool \<Rightarrow> string \<Rightarrow> string \<times> string option" where
  "scanHost inside [] = ([], None)"
| "scanHost inside (c # s) =
     (if c = CHR '':'' \<and> \<not> inside then ([], Some s)
      else (case scanHost (if c = CHR ''['' then True else if c = CHR '']'' then False
                           else inside) s of
              (buf, port) \<Rightarrow> (c # buf, port)))"

text \<open>The host parser for a URL that is not special: an IPv6 literal or an opaque host.\<close>

definition parseHost :: "(string \<Rightarrow> string option) \<Rightarrow> string \<Rightarrow> string option" where
  "parseHost ipv6 input =
     (if input \<noteq> [] \<and> hd input = CHR ''[''
      then (if last input \<noteq> CHR '']'' then None
            else (case ipv6 (butlast (tl input)) of
                    None \<Rightarrow> None
                  | Some a \<Rightarrow> Some (''['' @ a @ '']'')))
      else if list_ex isForbiddenHostCodePoint input then None
      else Some (percentEncode inC0ControlSet input))"

definition decimalValue :: "string \<Rightarrow> nat" where
  "decimalValue ds = foldl (\<lambda>a d. 10 * a + digitValue d) 0 ds"

text \<open>Port state: digits only, and at most 65535.\<close>

definition validPort :: "string \<Rightarrow> bool" where
  "validPort p = (list_all isDigit p \<and> (p = [] \<or> decimalValue p \<le> 65535))"

text \<open>
  Authority state and host state, on the text between \<open>//\<close> and the next \<open>/\<close>, \<open>?\<close>,
  \<open>#\<close> or the end. Credentials end at the last \<open>@\<close>. The result is the host.
\<close>

definition afterLastAt :: "string \<Rightarrow> string" where
  "afterLastAt auth = rev (takeWhile (\<lambda>c. c \<noteq> CHR 0x40) (rev auth))"

definition parseAuthority :: "(string \<Rightarrow> string option) \<Rightarrow> string \<Rightarrow> string option" where
  "parseAuthority ipv6 auth =
     (let atSignSeen = (CHR 0x40 \<in> set auth);
          hostPort = (if atSignSeen then afterLastAt auth else auth)
      in if atSignSeen \<and> hostPort = [] then None
         else (case scanHost False hostPort of
                 (buf, None) \<Rightarrow> parseHost ipv6 buf
               | (buf, Some port) \<Rightarrow>
                   if buf = [] then None
                   else (case parseHost ipv6 buf of
                           None \<Rightarrow> None
                         | Some h \<Rightarrow> if validPort port then Some h else None)))"

definition isSingleDot :: "string \<Rightarrow> bool" where
  "isSingleDot b = (b = ''.'' \<or> b = ''%2e'' \<or> b = ''%2E'')"

definition isDoubleDot :: "string \<Rightarrow> bool" where
  "isDoubleDot b = (b = ''..'' \<or> b = ''.%2e'' \<or> b = ''.%2E'' \<or> b = ''%2e.'' \<or> b = ''%2E.''
     \<or> b = ''%2e%2e'' \<or> b = ''%2E%2E'' \<or> b = ''%2e%2E'' \<or> b = ''%2E%2e'')"

text \<open>
  Path state, over the \<open>/\<close>-separated pieces of the text after the first slash: a
  double-dot piece removes the last segment, a single-dot piece adds nothing, and either
  leaves an empty segment when it is the last piece; any other piece is appended
  percent-encoded.
\<close>

fun buildPath :: "string list \<Rightarrow> string list \<Rightarrow> string list" where
  "buildPath acc [] = acc"
| "buildPath acc (piece # rest) =
     (let b = percentEncode inPathSet piece in
      if isDoubleDot b then buildPath (butlast acc @ (if rest = [] then [[]] else [])) rest
      else if isSingleDot b then buildPath (acc @ (if rest = [] then [[]] else [])) rest
      else buildPath (acc @ [b]) rest)"

definition isQueryOrFragmentStart :: "char \<Rightarrow> bool" where
  "isQueryOrFragmentStart c = (c = CHR ''?'' \<or> c = CHR ''#'')"

definition isAuthorityEnd :: "char \<Rightarrow> bool" where
  "isAuthorityEnd c = (c = CHR ''/'' \<or> c = CHR ''?'' \<or> c = CHR ''#'')"

text \<open>Query state, on the text from the path's end: the query runs from \<open>?\<close> to \<open>#\<close>.\<close>

definition parseQuery :: "string \<Rightarrow> string option" where
  "parseQuery rest =
     (case rest of
        [] \<Rightarrow> None
      | c # r \<Rightarrow> if c = CHR ''?''
                 then Some (percentEncode inQuerySet (takeWhile (\<lambda>x. x \<noteq> CHR ''#'') r))
                 else None)"

text \<open>
  Opaque path state: C0 controls and bytes beyond ASCII are percent-encoded, and so is a
  space that stands right before the query or the fragment.
\<close>

definition parseOpaquePath :: "string \<Rightarrow> bool \<Rightarrow> string" where
  "parseOpaquePath p followed =
     (if followed \<and> p \<noteq> [] \<and> last p = CHR 0x20
      then percentEncode inC0ControlSet (butlast p) @ ''%20''
      else percentEncode inC0ControlSet p)"

text \<open>Path start state and path state, on the text after the authority.\<close>

definition parsePathAndQuery :: "string \<Rightarrow> url_path \<times> string option" where
  "parsePathAndQuery rest =
     (case rest of
        [] \<Rightarrow> (Segments [], None)
      | c # r \<Rightarrow>
          if c = CHR ''/''
          then (Segments (buildPath [] (split CHR ''/'' (takeWhile (\<lambda>x. \<not> isQueryOrFragmentStart x) r))),
                parseQuery (dropWhile (\<lambda>x. \<not> isQueryOrFragmentStart x) r))
          else (Segments [], parseQuery rest))"

definition newURL :: "(string \<Rightarrow> string option) \<Rightarrow> string \<Rightarrow> url_result" where
  "newURL ipv6 input =
     (case parseScheme (sanitize input) of
        None \<Rightarrow> InvalidURL
      | Some (sch, rest) \<Rightarrow>
          if isSpecialScheme sch then SpecialScheme sch
          else if startsWith rest ''//''
          then (let r = drop 2 rest in
                case parseAuthority ipv6 (takeWhile (\<lambda>c. \<not> isAuthorityEnd c) r) of
                  None \<Rightarrow> InvalidURL
                | Some h \<Rightarrow>
                    (case parsePathAndQuery (dropWhile (\<lambda>c. \<not> isAuthorityEnd c) r) of
                       (p, q) \<Rightarrow> ParsedURL \<lparr>scheme = sch, host = Some h, urlPath = p, urlQuery = q\<rparr>))
          else if startsWith rest ''/''
          then (case parsePathAndQuery rest of
                  (p, q) \<Rightarrow> ParsedURL \<lparr>scheme = sch, host = None, urlPath = p, urlQuery = q\<rparr>)
          else (let p = takeWhile (\<lambda>x. \<not> isQueryOrFragmentStart x) rest;
                    after = dropWhile (\<lambda>x. \<not> isQueryOrFragmentStart x) rest
                in ParsedURL \<lparr>scheme = sch, host = None,
                     urlPath = OpaquePath (parseOpaquePath p (after \<noteq> [])),
                     urlQuery = parseQuery after\<rparr>))"

text \<open>The getters \<open>url.protocol\<close>, \<open>url.hostname\<close> and \<open>url.pathname\<close>.\<close>

definition protocol :: "URL \<Rightarrow> string" where
  "protocol u = scheme u @ '':''"

definition hostname :: "URL \<Rightarrow> string" where
  "hostname u = (case host u of None \<Rightarrow> [] | Some h \<Rightarrow> h)"

definition pathname :: "URL \<Rightarrow> string" where
  "pathname u =
     (case urlPath u of
        OpaquePath p \<Rightarrow> p
      | Segments segs \<Rightarrow> concat (map (\<lambda>seg. CHR ''/'' # seg) segs))"

text \<open>
  \<open>url.searchParams.get(name)\<close>: the query is cut at every \<open>&\<close>, each non-empty piece
  at its first \<open>=\<close>; in name and value \<open>+\<close> becomes a space and percent-encoded bytes
  are decoded; the first pair with the name gives the value.
\<close>

definition isHexDigit :: "char \<Rightarrow> bool" where
  "isHexDigit c = (isDigit c \<or> (65 \<le> code c \<and> code c \<le> 70) \<or> (97 \<le> code c \<and> code c \<le> 102))"

definition hexValue :: "char \<Rightarrow> nat" where
  "hexValue c = (if isDigit c then code c - 48
                 else if code c \<le> 70 then code c - 55 else code c - 87)"

fun percentDecode :: "string \<Rightarrow> string" where
  "percentDecode [] = []"
| "percentDecode (c # s) =
     (if c = CHR ''%'' \<and> 2 \<le> length s \<and> isHexDigit (s ! 0) \<and> isHexDigit (s ! 1)
      then char_of (16 * hexValue (s ! 0) + hexValue (s ! 1)) # percentDecode (drop 2 s)
      else c # percentDecode s)"

definition formDecode :: "string \<Rightarrow> string" where
  "formDecode s = percentDecode (map (\<lambda>c. if c = CHR ''+'' then CHR 0x20 else c) s)"

definition parseUrlEncoded :: "string \<Rightarrow> (string \<times> string) list" where
  "parseUrlEncoded q =
     map (\<lambda>piece. (formDecode (takeWhile (\<lambda>c. c \<noteq> CHR ''='') piece),
                    formDecode (drop 1 (dropWhile (\<lambda>c. c \<noteq> CHR ''='') piece))))
       (filter (\<lambda>piece. piece \<noteq> []) (split CHR ''&'' q))"

definition searchParamsGet :: "URL \<Rightarrow> string \<Rightarrow> string option" where
  "searchParamsGet u name =
     map_of (parseUrlEncoded (case urlQuery u of None \<Rightarrow> [] | Some q \<Rightarrow> q)) name"


section \<open>URI Codec (src/utils/uriParser.ts)\<close>

record GiteaUri =
  server :: string
  owner :: string
  repo :: string
  path :: string
  ref :: "string option"

text \<open>
  Every place of the program that throws is a constructor: the wrapped parse failure
  (uriParser.ts:55), the missing token (giteaFileSystemProvider.ts:35), a rejected
  \<open>fetch\<close> (the error's name and message), the error \<open>request\<close> makes of a response
  that is not ok (status, statusText, endpoint: unnamed/part_002:199), a response body
  that is not JSON, the missing file content (part_002:299), a TypeError of the
  language, the wrapped read failure (giteaFileSystemProvider.ts:74), and the two
  errors of the editor's file system interface, \<open>NoPermissions\<close> with its message and
  \<open>FileNotFound\<close> with the URI.
\<close>

datatype error =
    FailedToParseGiteaUri
  | NoAuthenticationToken string
  | FetchError string string
  | ApiError nat string string
  | JsonError
  | FileContentNotFound
  | TypeError
  | FailedToReadFile error
  | NoPermissions string
  | FileNotFound string

text \<open>
  parseGiteaUri (uriParser.ts:26-59). Every failure inside the \<open>try\<close> block (the URL
  constructor throwing, the protocol check, the check of the parts) ends in the one
  \<open>catch\<close> that throws \<open>Failed to parse Gitea URI: ...\<close>; the text after the colon is
  not modelled. For an input with a special scheme either the constructor or the
  protocol check throws.
\<close>

definition parseGiteaUri :: "(string \<Rightarrow> string option) \<Rightarrow> string \<Rightarrow> error + GiteaUri" where
  "parseGiteaUri ipv6 uri =
     (case newURL ipv6 uri of
        InvalidURL \<Rightarrow> Inl FailedToParseGiteaUri
      | SpecialScheme _ \<Rightarrow> Inl FailedToParseGiteaUri
      | ParsedURL url \<Rightarrow>
          if protocol url \<noteq> ''gitea:'' then Inl FailedToParseGiteaUri
          else
            (let server' = hostname url;
                 pathname' = drop 1 (pathname url);
                 parts = split CHR ''/'' pathname'
             in if length parts < 2 then Inl FailedToParseGiteaUri
                else Inr \<lparr>server = server',
                          owner = parts ! 0,
                          repo = parts ! 1,
                          path = join ''/'' (drop 2 parts),
                          ref = Some (case searchParamsGet url ''ref'' of
                                        None \<Rightarrow> ''HEAD''
                                      | Some r \<Rightarrow> if r = [] then ''HEAD'' else r)\<rparr>))"

text \<open>
  createGiteaUri (uriParser.ts:64-75). The last parameter has the default \<open>'HEAD'\<close>,
  used when the argument is left out (\<open>None\<close>).
\<close>

definition createGiteaUri ::
  "string \<Rightarrow> string \<Rightarrow> string \<Rightarrow> string \<Rightarrow> string option \<Rightarrow> string" where
  "createGiteaUri server' owner' repo' filePath' refArg =
     (let ref' = (case refArg of None \<Rightarrow> ''HEAD'' | Some r \<Rightarrow> r);
          base = ''gitea://'' @ server' @ ''/'' @ owner' @ ''/'' @ repo';
          filePath = (if filePath' \<noteq> [] then ''/'' @ filePath' else []);
          refParam = (if ref' \<noteq> [] \<and> ref' \<noteq> ''HEAD'' then ''?ref='' @ ref' else [])
      in base @ filePath @ refParam)"

text \<open>isGiteaUri (uriParser.ts:80-87).\<close>

definition isGiteaUri :: "(string \<Rightarrow> string option) \<Rightarrow> string \<Rightarrow> bool" where
  "isGiteaUri ipv6 uri =
     (case newURL ipv6 uri of
        InvalidURL \<Rightarrow> False
      | SpecialScheme _ \<Rightarrow> False
      | ParsedURL url \<Rightarrow> protocol url = ''gitea:'')"

text \<open>getServerUrl (uriParser.ts:92-98).\<close>

definition getServerUrl :: "string \<Rightarrow> string" where
  "getServerUrl server' =
     (if str_includes server' ''localhost'' \<or> str_includes server' ''127.0.0.1''
      then ''http://'' @ server' else ''https://'' @ server')"


text \<open>
  The components the round trip of the codec is stated for. All are printable ASCII
  without white space. A server is a host name: none of the characters the URL parser
  refuses in a host (among them \<open>:\<close>, \<open>/\<close>, \<open>@\<close> and the square brackets). An owner or a
  repository name is one path segment that the URL parser leaves as it is: no \<open>/\<close>, no
  character it would percent-encode, and not a dot segment. A file path is a sequence of
  such segments separated by \<open>/\<close>. A ref is not empty and has none of \<open>#\<close>, \<open>&\<close>, \<open>+\<close>,
  \<open>%\<close>, which a query string reads as markup.
\<close>

definition isPrintable :: "char \<Rightarrow> bool" where
  "isPrintable c = (33 \<le> code c \<and> code c \<le> 126)"

definition validServer :: "string \<Rightarrow> bool" where
  "validServer s = list_all (\<lambda>c. isPrintable c \<and> \<not> isForbiddenHostCodePoint c) s"

definition notDotSegment :: "string \<Rightarrow> bool" where
  "notDotSegment seg = (\<not> isSingleDot seg \<and> \<not> isDoubleDot seg)"

definition validName :: "string \<Rightarrow> bool" where
  "validName x =
     (list_all (\<lambda>c. isPrintable c \<and> \<not> inPathSet c \<and> c \<noteq> CHR ''/'') x \<and> notDotSegment x)"

definition validPath :: "string \<Rightarrow> bool" where
  "validPath p =
     (list_all (\<lambda>c. isPrintable c \<and> \<not> inPathSet c) p
      \<and> list_all notDotSegment (split CHR ''/'' p))"

definition validRef :: "string \<Rightarrow> bool" where
  "validRef r =
     (r \<noteq> [] \<and> list_all (\<lambda>c. isPrintable c \<and> c \<noteq> CHR ''#'' \<and> c \<noteq> CHR ''&''
                               \<and> c \<noteq> CHR ''+'' \<and> c \<noteq> CHR ''%'') r)"


section \<open>Forge API Client (unnamed/part_002)\<close>

text \<open>
  The network is an oracle: the answer to a \<open>fetch\<close> call may depend on the call and on
  all calls made before it. A call either is rejected (a failure with the error's name
  and message) or resolves to a response. The log of calls is threaded through every
  operation, so that what was requested, and in which order, can be stated.
  \<open>console.log\<close> and \<open>console.error\<close> are left out.
\<close>

datatype http_method = GET | POST | PUT | PATCH | DELETE

datatype agent = DefaultAgent | HttpAgent | HttpsAgent bool

record fetch_call =
  callUrl :: string
  callMethod :: http_method
  callHeaders :: "(string \<times> string) list"
  callAgent :: agent
  callBody :: "(string \<times> string) list option"

datatype fetch_failure = FetchFailure string string

text \<open>
  A response: \<open>json\<close> is what \<open>response.json()\<close> resolves to, \<open>None\<close> when the body is
  not JSON. \<open>response.ok\<close> is defined by the Fetch Standard: a status from 200 to 299.
\<close>

record 'a response =
  status :: nat
  statusText :: string
  json :: "'a option"

definition ok :: "'a response \<Rightarrow> bool" where
  "ok r = (200 \<le> status r \<and> status r \<le> 299)"

type_synonym 'a network = "fetch_call list \<Rightarrow> fetch_call \<Rightarrow> fetch_failure + 'a response"

definition fetch ::
  "'a network \<Rightarrow> fetch_call \<Rightarrow> fetch_call list
     \<Rightarrow> (fetch_failure + 'a response) \<times> fetch_call list" where
  "fetch net call log = (net log call, log @ [call])"

record settings =
  getHost :: string
  getToken :: string
  getTrustInsecureCertificates :: bool
  getEnableLogging :: bool

record GiteaClient =
  baseUrl :: string
  token :: string
  protocolDetected :: bool
  trustInsecureCerts :: bool
  enableLogging :: bool

definition withScheme :: "string \<Rightarrow> string" where
  "withScheme url =
     (if \<not> startsWith url ''http://'' \<and> \<not> startsWith url ''https://''
      then ''https://'' @ url else url)"

definition withApiSuffix :: "string \<Rightarrow> string" where
  "withApiSuffix url = (if endsWith url ''/api/v1'' then url else url @ ''/api/v1'')"

text \<open>
  The constructor (part_002:55-84): with a URL and a token that are both given and not
  empty, the client is made of them; otherwise of the settings.
\<close>

definition newGiteaClient :: "settings \<Rightarrow> string option \<Rightarrow> string option \<Rightarrow> GiteaClient" where
  "newGiteaClient cfg baseUrlArg tokenArg =
     (let fromSettings = (getHost cfg, getToken cfg);
          (url, tok) = (case (baseUrlArg, tokenArg) of
                          (Some b, Some t) \<Rightarrow> if b \<noteq> [] \<and> t \<noteq> [] then (b, t) else fromSettings
                        | _ \<Rightarrow> fromSettings)
      in \<lparr>baseUrl = withApiSuffix (withScheme url),
          token = tok,
          protocolDetected = False,
          trustInsecureCerts = getTrustInsecureCertificates cfg,
          enableLogging = getEnableLogging cfg\<rparr>)"

text \<open>\<open>s.replace(pat, '')\<close> for a string pattern: the first occurrence goes.\<close>

fun removeFirst :: "string \<Rightarrow> string \<Rightarrow> string" where
  "removeFirst pat [] = []"
| "removeFirst pat (c # s) =
     (if startsWith (c # s) pat then drop (length pat) (c # s) else c # removeFirst pat s)"

text \<open>\<open>s.replace(/^https?:\/\//, '')\<close>.\<close>

definition stripScheme :: "string \<Rightarrow> string" where
  "stripScheme s =
     (if startsWith s ''https://'' then drop (length ''https://'') s
      else if startsWith s ''http://'' then drop (length ''http://'') s else s)"

definition sslErrors :: "string list" where
  "sslErrors = [''WRONG_VERSION_NUMBER'', ''EPROTO'', ''ECONNRESET'', ''CERT'', ''SELF_SIGNED'',
                ''UNABLE_TO_VERIFY_LEAF_SIGNATURE'']"

text \<open>\<open>err.message || err.toString()\<close>: an error without a message prints as its name.\<close>

definition errorMsg :: "fetch_failure \<Rightarrow> string" where
  "errorMsg err = (case err of FetchFailure name' message \<Rightarrow>
                     if message \<noteq> [] then message else name')"

definition isSslError :: "fetch_failure \<Rightarrow> bool" where
  "isSslError err = list_ex (\<lambda>e. str_includes (errorMsg err) e) sslErrors"

definition testUrlOf :: "string \<Rightarrow> string" where
  "testUrlOf base =
     (if endsWith base ''/api/v1'' then removeFirst ''/api/v1'' base else base)"

definition httpsProbe :: "string \<Rightarrow> fetch_call" where
  "httpsProbe testUrl =
     \<lparr>callUrl = testUrl @ ''/api/v1/version'', callMethod = GET, callHeaders = [],
      callAgent = HttpsAgent False, callBody = None\<rparr>"

definition httpProbe :: "string \<Rightarrow> fetch_call" where
  "httpProbe testUrl =
     \<lparr>callUrl = ''http://'' @ stripScheme testUrl @ ''/api/v1/version'', callMethod = GET,
      callHeaders = [], callAgent = DefaultAgent, callBody = None\<rparr>"

text \<open>
  detectProtocol (part_002:105-153). A first probe that resolves, ok or not, ends the
  \<open>try\<close> block without a fallback; one that is rejected with an error of another class
  than the SSL ones falls through to the last \<open>return\<close>; the fallback's rejection
  rethrows the first error.
\<close>

definition detectProtocol ::
  "'a network \<Rightarrow> string \<Rightarrow> fetch_call list \<Rightarrow> (fetch_failure + string) \<times> fetch_call list" where
  "detectProtocol net base log =
     (let testUrl = testUrlOf base in
      case fetch net (httpsProbe testUrl) log of
        (Inr res, log1) \<Rightarrow> (Inr testUrl, log1)
      | (Inl err, log1) \<Rightarrow>
          if isSslError err
          then (case fetch net (httpProbe testUrl) log1 of
                  (Inr res, log2) \<Rightarrow>
                    if ok res
                    then (Inr (removeFirst ''/api/v1/version'' (callUrl (httpProbe testUrl))), log2)
                    else (Inr testUrl, log2)
                | (Inl _, log2) \<Rightarrow> (Inl err, log2))
          else (Inr testUrl, log1))"

text \<open>initializeConnection (part_002:86-100).\<close>

definition initializeConnection ::
  "'a network \<Rightarrow> GiteaClient \<Rightarrow> fetch_call list \<Rightarrow> GiteaClient \<times> fetch_call list" where
  "initializeConnection net c log =
     (if protocolDetected c then (c, log)
      else (case detectProtocol net (baseUrl c) log of
              (Inr detectedUrl, log') \<Rightarrow>
                (c\<lparr>baseUrl := withApiSuffix detectedUrl, protocolDetected := True\<rparr>, log')
            | (Inl err, log') \<Rightarrow> (c\<lparr>protocolDetected := True\<rparr>, log')))"

definition requestCall ::
  "GiteaClient \<Rightarrow> string \<Rightarrow> http_method \<Rightarrow> (string \<times> string) list option \<Rightarrow> fetch_call" where
  "requestCall c endpoint m body =
     \<lparr>callUrl = baseUrl c @ endpoint, callMethod = m,
      callHeaders = [(''Authorization'', ''token '' @ token c),
                     (''Content-Type'', ''application/json'')],
      callAgent = (if startsWith (baseUrl c @ endpoint) ''https://''
                   then HttpsAgent (\<not> trustInsecureCerts c) else HttpAgent),
      callBody = body\<rparr>"

text \<open>
  request (part_002:155-206): the protocol is detected before the first request; a
  rejected \<open>fetch\<close> propagates, a response that is not ok becomes the API error with
  the status, the status text and the endpoint, and a body that is not JSON makes
  \<open>response.json()\<close> throw.
\<close>

definition request ::
  "'a network \<Rightarrow> GiteaClient \<Rightarrow> string \<Rightarrow> http_method \<Rightarrow> (string \<times> string) list option
     \<Rightarrow> fetch_call list \<Rightarrow> (error + 'a) \<times> GiteaClient \<times> fetch_call list" where
  "request net c endpoint m body log =
     (case (if \<not> protocolDetected c then initializeConnection net c log else (c, log)) of
        (c1, log1) \<Rightarrow>
          (case fetch net (requestCall c1 endpoint m body) log1 of
             (Inl (FetchFailure name' message), log2) \<Rightarrow> (Inl (FetchError name' message), c1, log2)
           | (Inr res, log2) \<Rightarrow>
               if \<not> ok res then (Inl (ApiError (status res) (statusText res) endpoint), c1, log2)
               else (case json res of
                       None \<Rightarrow> (Inl JsonError, c1, log2)
                     | Some data \<Rightarrow> (Inr data, c1, log2))))"

text \<open>\<open>${n}\<close> for a number that is a natural number: its decimal digits.\<close>

definition digitChar :: "nat \<Rightarrow> char" where
  "digitChar n = ''0123456789'' ! n"

function showNat :: "nat \<Rightarrow> string" where
  "showNat n = (if n < 10 then [digitChar n]
                else showNat (n div 10) @ [digitChar (n mod 10)])"
  by pat_completeness auto
termination
  by (relation "measure id") auto

declare showNat.simps [simp del]

text \<open>\<open>encodeURIComponent\<close>: everything but letters, digits and \<open>-_.!~*'()\<close> is encoded.\<close>

definition isUriUnreserved :: "char \<Rightarrow> bool" where
  "isUriUnreserved c = (isAlpha c \<or> isDigit c \<or> c \<in> set (''-_.!~*()'' @ [CHR 0x27]))"

definition encodeURIComponent :: "string \<Rightarrow> string" where
  "encodeURIComponent s = percentEncode (\<lambda>c. \<not> isUriUnreserved c) s"

datatype item_state = StateOpen | StateClosed

definition stateText :: "item_state option \<Rightarrow> string" where
  "stateText st = (case st of None \<Rightarrow> ''open'' | Some StateOpen \<Rightarrow> ''open''
                   | Some StateClosed \<Rightarrow> ''closed'')"

datatype merge_method = Merge | Squash | Rebase

definition mergeMethodText :: "merge_method option \<Rightarrow> string" where
  "mergeMethodText mm = (case mm of None \<Rightarrow> ''merge'' | Some Merge \<Rightarrow> ''merge''
                         | Some Squash \<Rightarrow> ''squash'' | Some Rebase \<Rightarrow> ''rebase'')"

definition orDefault :: "'b \<Rightarrow> 'b option \<Rightarrow> 'b" where
  "orDefault d x = (case x of None \<Rightarrow> d | Some v \<Rightarrow> v)"

text \<open>The operations that return what \<open>request\<close> returns (part_002:211-372).\<close>

definition repoEndpoint :: "string \<Rightarrow> string \<Rightarrow> string" where
  "repoEndpoint owner' repo' = ''/repos/'' @ owner' @ ''/'' @ repo'"

definition getPullRequests where
  "getPullRequests net c owner' repo' st log =
     request net c (repoEndpoint owner' repo' @ ''/pulls?state='' @ stateText st) GET None log"

definition getPullRequest where
  "getPullRequest net c owner' repo' n log =
     request net c (repoEndpoint owner' repo' @ ''/pulls/'' @ showNat n) GET None log"

definition getPullRequestFiles where
  "getPullRequestFiles net c owner' repo' n log =
     request net c (repoEndpoint owner' repo' @ ''/pulls/'' @ showNat n @ ''/files'') GET None log"

definition getPullRequestComments where
  "getPullRequestComments net c owner' repo' n log =
     request net c (repoEndpoint owner' repo' @ ''/pulls/'' @ showNat n @ ''/comments'') GET None
       log"

definition mergePullRequest where
  "mergePullRequest net c owner' repo' n mm log =
     request net c (repoEndpoint owner' repo' @ ''/pulls/'' @ showNat n @ ''/merge'') POST
       (Some [(''merge_method'', mergeMethodText mm)]) log"

definition closePullRequest where
  "closePullRequest net c owner' repo' n log =
     request net c (repoEndpoint owner' repo' @ ''/pulls/'' @ showNat n) PATCH
       (Some [(''state'', ''closed'')]) log"

definition getRepository where
  "getRepository net c owner' repo' log = request net c (repoEndpoint owner' repo') GET None log"

definition getCurrentUser where
  "getCurrentUser net c log = request net c ''/user'' GET None log"

definition getBranches where
  "getBranches net c owner' repo' log =
     request net c (repoEndpoint owner' repo' @ ''/branches'') GET None log"

definition getIssues where
  "getIssues net c owner' repo' st log =
     request net c (repoEndpoint owner' repo' @ ''/issues?state='' @ stateText st) GET None log"

definition getIssue where
  "getIssue net c owner' repo' n log =
     request net c (repoEndpoint owner' repo' @ ''/issues/'' @ showNat n) GET None log"

definition createBranch where
  "createBranch net c owner' repo' branchName oldBranchName log =
     request net c (repoEndpoint owner' repo' @ ''/branches'') POST
       (Some [(''new_branch_name'', branchName),
              (''old_branch_name'', orDefault ''main'' oldBranchName)]) log"

definition getRepositoryDetail where
  "getRepositoryDetail net c owner' repo' log =
     request net c (repoEndpoint owner' repo') GET None log"

definition getUserRepositories where
  "getUserRepositories net c log = request net c ''/user/repos?limit=100'' GET None log"

definition getRepositoriesByOwner where
  "getRepositoriesByOwner net c owner' log =
     request net c (''/users/'' @ owner' @ ''/repos?limit=100'') GET None log"

text \<open>
  What the contents endpoint answers, as far as the client looks at it: an object, of
  which only the \<open>content\<close> property is read (\<open>None\<close> when it is missing or null), or an
  array of entries. An entry's \<open>type\<close> is the string the server sent.
\<close>

record DirectoryEntry =
  entryName :: string
  entryType :: string
  entrySize :: "nat option"
  entryDownloadUrl :: "string option"
  entryPath :: string

datatype contents_data = FileObject "string option" | Listing "DirectoryEntry list"

definition contentsEndpoint :: "string \<Rightarrow> string \<Rightarrow> string \<Rightarrow> string \<Rightarrow> string" where
  "contentsEndpoint owner' repo' filePath ref' =
     repoEndpoint owner' repo' @ ''/contents/'' @ filePath @ ''?ref='' @ ref'"

text \<open>
  getFileContent (part_002:285-300). \<open>decode\<close> stands for
  \<open>Buffer.from(_, 'base64').toString('utf-8')\<close>. An empty \<open>content\<close> is falsy.
\<close>

definition getFileContent ::
  "(string \<Rightarrow> string) \<Rightarrow> contents_data network \<Rightarrow> GiteaClient \<Rightarrow> string \<Rightarrow> string \<Rightarrow> string
     \<Rightarrow> string option \<Rightarrow> fetch_call list \<Rightarrow> (error + string) \<times> GiteaClient \<times> fetch_call list"
  where
  "getFileContent decode net c owner' repo' filePath refArg log =
     (case request net c (contentsEndpoint owner' repo' filePath (orDefault ''HEAD'' refArg))
             GET None log of
        (Inl e, c', log') \<Rightarrow> (Inl e, c', log')
      | (Inr data, c', log') \<Rightarrow>
          (case data of
             FileObject (Some content) \<Rightarrow>
               if content \<noteq> [] then (Inr (decode content), c', log')
               else (Inl FileContentNotFound, c', log')
           | FileObject None \<Rightarrow> (Inl FileContentNotFound, c', log')
           | Listing _ \<Rightarrow> (Inl FileContentNotFound, c', log')))"

text \<open>listDirectoryContents (part_002:305-313).\<close>

definition listDirectoryContents ::
  "contents_data network \<Rightarrow> GiteaClient \<Rightarrow> string \<Rightarrow> string \<Rightarrow> string \<Rightarrow> string option
     \<Rightarrow> fetch_call list \<Rightarrow> (error + contents_data) \<times> GiteaClient \<times> fetch_call list" where
  "listDirectoryContents net c owner' repo' dirPath refArg log =
     request net c (contentsEndpoint owner' repo' dirPath (orDefault ''HEAD'' refArg)) GET None
       log"

text \<open>searchRepositories (part_002:377-381): \<open>data.data || []\<close>.\<close>

record 'r search_data =
  searchData :: "'r list option"

definition searchRepositories ::
  "'r search_data network \<Rightarrow> GiteaClient \<Rightarrow> string \<Rightarrow> nat option \<Rightarrow> fetch_call list
     \<Rightarrow> (error + 'r list) \<times> GiteaClient \<times> fetch_call list" where
  "searchRepositories net c q limit log =
     (case request net c (''/repos/search?q='' @ encodeURIComponent q @ ''&limit=''
                           @ showNat (orDefault 20 limit)) GET None log of
        (Inl e, c', log') \<Rightarrow> (Inl e, c', log')
      | (Inr data, c', log') \<Rightarrow> (Inr (orDefault [] (searchData data)), c', log'))"

text \<open>
  getRepositoryContents (part_002:386-406): the \<open>catch\<close> covers the request and the
  \<open>map\<close>, which throws when the data is not an array.
\<close>

definition normalizeEntry :: "DirectoryEntry \<Rightarrow> DirectoryEntry" where
  "normalizeEntry item = item\<lparr>entryType := (if entryType item = ''dir'' then ''dir'' else ''file'')\<rparr>"

definition getRepositoryContents ::
  "contents_data network \<Rightarrow> GiteaClient \<Rightarrow> string \<Rightarrow> string \<Rightarrow> string option \<Rightarrow> string option
     \<Rightarrow> fetch_call list \<Rightarrow> DirectoryEntry list \<times> GiteaClient \<times> fetch_call list" where
  "getRepositoryContents net c owner' repo' pathArg refArg log =
     (case request net c (contentsEndpoint owner' repo' (orDefault [] pathArg)
                            (orDefault ''master'' refArg)) GET None log of
        (Inl e, c', log') \<Rightarrow> ([], c', log')
      | (Inr data, c', log') \<Rightarrow>
          (case data of
             Listing items \<Rightarrow> (map normalizeEntry items, c', log')
           | FileObject _ \<Rightarrow> ([], c', log')))"


text \<open>
  The base URLs protocol detection is stated for: a root with its scheme, followed by
  \<open>/api/v1\<close>, where \<open>/api/v1\<close> does not occur in the root itself. The constructor makes
  such a base URL of every host that does not contain \<open>/api/v1\<close> before its end.
\<close>

definition wellFormedBase :: "string \<Rightarrow> string \<Rightarrow> bool" where
  "wellFormedBase base root =
     (base = root @ ''/api/v1''
      \<and> (startsWith root ''http://'' \<or> startsWith root ''https://'')
      \<and> \<not> str_includes root ''/api/v1'')"

text \<open>A client and three networks to run protocol detection on.\<close>

definition sampleSettings :: settings where
  "sampleSettings = \<lparr>getHost = [], getToken = [], getTrustInsecureCertificates = False,
                      getEnableLogging = False\<rparr>"

definition sampleClient :: GiteaClient where
  "sampleClient = newGiteaClient sampleSettings (Some ''gitea.example.com'') (Some ''abc123'')"

definition okResponse :: "'a option \<Rightarrow> 'a response" where
  "okResponse body = \<lparr>status = 200, statusText = ''OK'', json = body\<rparr>"

definition httpsNetwork :: "'a network" where
  "httpsNetwork log call = Inr (okResponse None)"

definition httpOnlyNetwork :: "'a network" where
  "httpOnlyNetwork log call =
     (if startsWith (callUrl call) ''https://''
      then Inl (FetchFailure ''FetchError'' ''write EPROTO: wrong version number'')
      else Inr (okResponse None))"

definition deadNetwork :: "'a network" where
  "deadNetwork log call = Inl (FetchFailure ''FetchError'' ''read ECONNRESET'')"

definition notFoundNetwork :: "'a network" where
  "notFoundNetwork log call = Inr \<lparr>status = 404, statusText = ''Not Found'', json = None\<rparr>"

definition detectedClient :: GiteaClient where
  "detectedClient = sampleClient\<lparr>protocolDetected := True\<rparr>"


section \<open>Virtual Filesystem Adapter (src/fs/giteaFileSystemProvider.ts)\<close>

text \<open>
  What the provider takes from outside: the token the authentication manager has for a
  server, the settings the client constructor reads, the network, the base64 decoder,
  the IPv6 parser of the URL class and the clock (\<open>dateNow k\<close> is what the \<open>k\<close>-th call
  of \<open>Date.now()\<close> within an operation returns). A URI is given by its text
  (\<open>uri.toString()\<close>).
\<close>

record fs_env =
  tokenFor :: "string \<Rightarrow> string option"
  clientSettings :: settings
  network :: "contents_data network"
  decodeBase64 :: "string \<Rightarrow> string"
  ipv6Parser :: "string \<Rightarrow> string option"
  dateNow :: "nat \<Rightarrow> nat"

type_synonym Uint8Array = "8 word list"

text \<open>\<open>new TextEncoder().encode(s)\<close>: the bytes of the string's UTF-8 form.\<close>

definition textEncode :: "string \<Rightarrow> Uint8Array" where
  "textEncode s = map (\<lambda>c. of_nat (code c)) s"

text \<open>
  The provider's two maps. A client is an object shared between the map and the
  operation that uses it: what a request changes in it (the detected protocol) is
  written back to the map.
\<close>

record GiteaFileSystemProvider =
  clients :: "string \<rightharpoonup> GiteaClient"
  cache :: "string \<rightharpoonup> Uint8Array"

text \<open>getClient (giteaFileSystemProvider.ts:28-43); an empty token is falsy.\<close>

definition getClient ::
  "fs_env \<Rightarrow> GiteaFileSystemProvider \<Rightarrow> string
     \<Rightarrow> (error + GiteaClient) \<times> GiteaFileSystemProvider" where
  "getClient env fs server' =
     (case clients fs server' of
        Some c \<Rightarrow> (Inr c, fs)
      | None \<Rightarrow>
          (case tokenFor env server' of
             None \<Rightarrow> (Inl (NoAuthenticationToken server'), fs)
           | Some t \<Rightarrow>
               if t = [] then (Inl (NoAuthenticationToken server'), fs)
               else (let c = newGiteaClient (clientSettings env) (Some (getServerUrl server'))
                               (Some t)
                     in (Inr c, fs\<lparr>clients := (clients fs)(server' \<mapsto> c)\<rparr>))))"

text \<open>\<open>giteaUri.ref || 'HEAD'\<close>.\<close>

definition refOrHead :: "GiteaUri \<Rightarrow> string" where
  "refOrHead g = (case ref g of None \<Rightarrow> ''HEAD'' | Some r \<Rightarrow> if r = [] then ''HEAD'' else r)"

definition putClient :: "string \<Rightarrow> GiteaClient \<Rightarrow> GiteaFileSystemProvider \<Rightarrow> GiteaFileSystemProvider"
  where
  "putClient server' c fs = fs\<lparr>clients := (clients fs)(server' \<mapsto> c)\<rparr>"

text \<open>
  The three steps readFile and stat share: parse the URI, get the client, fetch the
  file content. The result carries the provider (a client may have been created, and
  its state changed) and the log of network calls.
\<close>

definition fetchContent ::
  "fs_env \<Rightarrow> GiteaFileSystemProvider \<Rightarrow> string \<Rightarrow> fetch_call list
     \<Rightarrow> (error + string) \<times> GiteaFileSystemProvider \<times> fetch_call list" where
  "fetchContent env fs uri log =
     (case parseGiteaUri (ipv6Parser env) uri of
        Inl e \<Rightarrow> (Inl e, fs, log)
      | Inr g \<Rightarrow>
          (case getClient env fs (server g) of
             (Inl e, fs1) \<Rightarrow> (Inl e, fs1, log)
           | (Inr c, fs1) \<Rightarrow>
               (case getFileContent (decodeBase64 env) (network env) c (owner g) (repo g)
                       (path g) (Some (refOrHead g)) log of
                  (r, c', log') \<Rightarrow> (r, putClient (server g) c' fs1, log'))))"

text \<open>readFile (giteaFileSystemProvider.ts:48-76).\<close>

definition readFile ::
  "fs_env \<Rightarrow> GiteaFileSystemProvider \<Rightarrow> string \<Rightarrow> fetch_call list
     \<Rightarrow> (error + Uint8Array) \<times> GiteaFileSystemProvider \<times> fetch_call list" where
  "readFile env fs uri log =
     (case cache fs uri of
        Some bytes \<Rightarrow> (Inr bytes, fs, log)
      | None \<Rightarrow>
          (case fetchContent env fs uri log of
             (Inl e, fs', log') \<Rightarrow> (Inl (FailedToReadFile e), fs', log')
           | (Inr content, fs', log') \<Rightarrow>
               (Inr (textEncode content),
                fs'\<lparr>cache := (cache fs')(uri \<mapsto> textEncode content)\<rparr>, log')))"

text \<open>
  writeFile, delete, rename, createDirectory (giteaFileSystemProvider.ts:81-112): each
  throws at once.
\<close>

definition writeFile ::
  "GiteaFileSystemProvider \<Rightarrow> string \<Rightarrow> Uint8Array \<Rightarrow> bool \<Rightarrow> bool
     \<Rightarrow> (error + unit) \<times> GiteaFileSystemProvider" where
  "writeFile fs uri content create overwrite =
     (Inl (NoPermissions ''Gitea remote files are read-only''), fs)"

definition deleteFile ::
  "GiteaFileSystemProvider \<Rightarrow> string \<Rightarrow> bool \<Rightarrow> (error + unit) \<times> GiteaFileSystemProvider" where
  "deleteFile fs uri recursive = (Inl (NoPermissions ''Cannot delete remote files''), fs)"

definition rename ::
  "GiteaFileSystemProvider \<Rightarrow> string \<Rightarrow> string \<Rightarrow> bool
     \<Rightarrow> (error + unit) \<times> GiteaFileSystemProvider" where
  "rename fs oldUri newUri overwrite = (Inl (NoPermissions ''Cannot rename remote files''), fs)"

definition createDirectory ::
  "GiteaFileSystemProvider \<Rightarrow> string \<Rightarrow> (error + unit) \<times> GiteaFileSystemProvider" where
  "createDirectory fs uri = (Inl (NoPermissions ''Cannot create remote directories''), fs)"

datatype file_type = Unknown | File | Directory | SymbolicLink

record FileStat =
  fileType :: file_type
  ctime :: nat
  mtime :: nat
  fileSize :: nat

text \<open>stat (giteaFileSystemProvider.ts:117-141): every failure becomes FileNotFound.\<close>

definition stat ::
  "fs_env \<Rightarrow> GiteaFileSystemProvider \<Rightarrow> string \<Rightarrow> fetch_call list
     \<Rightarrow> (error + FileStat) \<times> GiteaFileSystemProvider \<times> fetch_call list" where
  "stat env fs uri log =
     (case fetchContent env fs uri log of
        (Inl e, fs', log') \<Rightarrow> (Inl (FileNotFound uri), fs', log')
      | (Inr content, fs', log') \<Rightarrow>
          (Inr \<lparr>fileType = File, ctime = dateNow env 0, mtime = dateNow env 1,
                fileSize = length (textEncode content)\<rparr>, fs', log'))"

text \<open>
  readDirectory (giteaFileSystemProvider.ts:146-165): \<open>entries.map\<close> throws when the
  data is not an array, and every failure becomes FileNotFound.
\<close>

definition readDirectory ::
  "fs_env \<Rightarrow> GiteaFileSystemProvider \<Rightarrow> string \<Rightarrow> fetch_call list
     \<Rightarrow> (error + (string \<times> file_type) list) \<times> GiteaFileSystemProvider \<times> fetch_call list" where
  "readDirectory env fs uri log =
     (case parseGiteaUri (ipv6Parser env) uri of
        Inl e \<Rightarrow> (Inl (FileNotFound uri), fs, log)
      | Inr g \<Rightarrow>
          (case getClient env fs (server g) of
             (Inl e, fs1) \<Rightarrow> (Inl (FileNotFound uri), fs1, log)
           | (Inr c, fs1) \<Rightarrow>
               (case listDirectoryContents (network env) c (owner g) (repo g) (path g)
                       (Some (refOrHead g)) log of
                  (Inl e, c', log') \<Rightarrow> (Inl (FileNotFound uri), putClient (server g) c' fs1, log')
                | (Inr (FileObject _), c', log') \<Rightarrow>
                    (Inl (FileNotFound uri), putClient (server g) c' fs1, log')
                | (Inr (Listing entries), c', log') \<Rightarrow>
                    (Inr (map (\<lambda>entry. (entryName entry,
                                          if entryType entry = ''dir'' then Directory else File))
                            entries),
                     putClient (server g) c' fs1, log'))))"

text \<open>watch (giteaFileSystemProvider.ts:170-176) returns a disposable that does nothing.\<close>

definition watch :: "GiteaFileSystemProvider \<Rightarrow> string \<Rightarrow> bool \<Rightarrow> string list \<Rightarrow> GiteaFileSystemProvider"
  where
  "watch fs uri recursive excludes = fs"

text \<open>clearCache and clearServerCache (giteaFileSystemProvider.ts:181-198).\<close>

definition clearCache :: "GiteaFileSystemProvider \<Rightarrow> GiteaFileSystemProvider" where
  "clearCache fs = fs\<lparr>cache := Map.empty\<rparr>"

definition clearServerCache :: "string \<Rightarrow> GiteaFileSystemProvider \<Rightarrow> GiteaFileSystemProvider" where
  "clearServerCache server' fs =
     fs\<lparr>cache := (\<lambda>key. if str_includes key server' then None else cache fs key)\<rparr>"

text \<open>
  The operations of the provider as the editor calls them, and what each gives back.
\<close>

datatype fs_operation =
    ReadFile string
  | WriteFile string Uint8Array bool bool
  | Delete string bool
  | Rename string string bool
  | CreateDirectory string
  | Stat string
  | ReadDirectory string
  | Watch string bool "string list"
  | ClearCache
  | ClearServerCache string

datatype fs_result =
    Bytes Uint8Array
  | StatResult FileStat
  | DirectoryListing "(string \<times> file_type) list"
  | Done

definition perform ::
  "fs_env \<Rightarrow> fs_operation \<Rightarrow> GiteaFileSystemProvider \<Rightarrow> fetch_call list
     \<Rightarrow> (error + fs_result) \<times> GiteaFileSystemProvider \<times> fetch_call list" where
  "perform env operation fs log =
     (case operation of
        ReadFile uri \<Rightarrow>
          (case readFile env fs uri log of (r, fs', log') \<Rightarrow> (map_sum id Bytes r, fs', log'))
      | WriteFile uri content create overwrite \<Rightarrow>
          (case writeFile fs uri content create overwrite of
             (r, fs') \<Rightarrow> (map_sum id (\<lambda>_. Done) r, fs', log))
      | Delete uri recursive \<Rightarrow>
          (case deleteFile fs uri recursive of (r, fs') \<Rightarrow> (map_sum id (\<lambda>_. Done) r, fs', log))
      | Rename oldUri newUri overwrite \<Rightarrow>
          (case rename fs oldUri newUri overwrite of
             (r, fs') \<Rightarrow> (map_sum id (\<lambda>_. Done) r, fs', log))
      | CreateDirectory uri \<Rightarrow>
          (case createDirectory fs uri of (r, fs') \<Rightarrow> (map_sum id (\<lambda>_. Done) r, fs', log))
      | Stat uri \<Rightarrow>
          (case stat env fs uri log of (r, fs', log') \<Rightarrow> (map_sum id StatResult r, fs', log'))
      | ReadDirectory uri \<Rightarrow>
          (case readDirectory env fs uri log of
             (r, fs', log') \<Rightarrow> (map_sum id DirectoryListing r, fs', log'))
      | Watch uri recursive excludes \<Rightarrow> (Inr Done, watch fs uri recursive excludes, log)
      | ClearCache \<Rightarrow> (Inr Done, clearCache fs, log)
      | ClearServerCache server' \<Rightarrow> (Inr Done, clearServerCache server' fs, log))"



definition isMutation :: "fs_operation \<Rightarrow> bool" where
  "isMutation operation =
     (case operation of
        WriteFile _ _ _ _ \<Rightarrow> True
      | Delete _ _ \<Rightarrow> True
      | Rename _ _ _ \<Rightarrow> True
      | CreateDirectory _ \<Rightarrow> True
      | _ \<Rightarrow> False)"


text \<open>
  A provider without clients and without cached content, an environment that knows a
  token for every server, and two networks: one answers every call with a file object,
  the other with a directory listing.
\<close>

definition emptyProvider :: GiteaFileSystemProvider where
  "emptyProvider = \<lparr>clients = Map.empty, cache = Map.empty\<rparr>"

definition sampleEnv :: "contents_data network \<Rightarrow> fs_env" where
  "sampleEnv net =
     \<lparr>tokenFor = (\<lambda>s. Some ''abc123''),
      clientSettings = sampleSettings,
      network = net,
      decodeBase64 = (\<lambda>s. if s = ''aGVsbG8='' then ''hello'' else []),
      ipv6Parser = (\<lambda>s. None),
      dateNow = (\<lambda>k. 1700000000 + k)\<rparr>"

definition fileNetwork :: "contents_data network" where
  "fileNetwork log call = Inr (okResponse (Some (FileObject (Some ''aGVsbG8=''))))"

definition sampleEntries :: "DirectoryEntry list" where
  "sampleEntries =
     [\<lparr>entryName = ''utils'', entryType = ''dir'', entrySize = Some 0,
       entryDownloadUrl = None, entryPath = ''src/utils''\<rparr>,
      \<lparr>entryName = ''main.ts'', entryType = ''file'', entrySize = Some 5,
       entryDownloadUrl = None, entryPath = ''src/main.ts''\<rparr>]"

definition directoryNetwork :: "contents_data network" where
  "directoryNetwork log call = Inr (okResponse (Some (Listing sampleEntries)))"


section \<open>Properties of the Local Repository Manager\<close>

lemma split_not_Nil: "split sep s \<noteq> []"
  by (induction s) auto

text \<open>What the dirty flag of getSyncStatus computes, in terms of the status lines.\<close>

lemma isDirtyOf_iff:
  "isDirtyOf out \<longleftrightarrow>
     (\<exists>line \<in> set (split LF out). startsWith line ''??'' \<and> length line > 3)"
  by (auto simp: isDirtyOf_def untrackedOf_def list_all_iff)

text \<open>
  C8. For a path without a version-control metadata directory, getSyncStatus returns
  exactly the zeroed status; the host state is returned as it was: no command was
  executed and no error message was shown.
\<close>

theorem getSyncStatus_without_metadata:
  assumes "\<not> existsSync env (world h) (path_join env repoPath ''.git'')"
  shows "getSyncStatus env repoPath h
           = (\<lparr>isDirty = False, ahead = 0, behind = 0, untracked = []\<rparr>, h)"
  using assms by (simp add: getSyncStatus_def zeroStatus_def)

theorem getSyncStatus_without_metadata_witness:
  "\<not> existsSync plainFolder [] (path_join plainFolder ''/work/notes'' ''.git'')
   \<and> getSyncStatus plainFolder ''/work/notes'' \<lparr>world = [], commands = [], messages = []\<rparr>
       = (\<lparr>isDirty = False, ahead = 0, behind = 0, untracked = []\<rparr>,
          \<lparr>world = [], commands = [], messages = []\<rparr>)"
proof -
  have no_git: "\<not> existsSync plainFolder (world \<lparr>world = [], commands = [], messages = []\<rparr>)
                   (path_join plainFolder ''/work/notes'' ''.git'')"
    by (simp add: plainFolder_def sampleRepo_def)
  from getSyncStatus_without_metadata [OF no_git] no_git show ?thesis
    by simp
qed

text \<open>
  C1. The status output of a working copy whose only change is a modified tracked file
  (one porcelain line, not an untracked one) gives isDirty = False: the flag is computed
  from the untracked lines alone.
\<close>

theorem getSyncStatus_modified_only:
  "fst (getSyncStatus sampleRepo ''/work/repo''
          \<lparr>world = '' M src/a.ts'' @ [LF], commands = [], messages = []\<rparr>)
     = \<lparr>isDirty = False, ahead = 0, behind = 0, untracked = []\<rparr>"
  by (simp add: getSyncStatus_def sampleRepo_def run_exec_def gitStatusCmd_def aheadCmd_def
        behindCmd_def startsWith_def isDirtyOf_def untrackedOf_def orZero_def parseInt10_def
        trim_def trimStart_def trimEnd_def isWhiteSpace_def isDigit_def digitValue_def
        code_def)

lemma getSyncStatus_untracked_only:
  "fst (getSyncStatus sampleRepo ''/work/repo''
          \<lparr>world = ''?? new.txt'' @ [LF], commands = [], messages = []\<rparr>)
     = \<lparr>isDirty = True, ahead = 0, behind = 0, untracked = [''new.txt'']\<rparr>"
  by (simp add: getSyncStatus_def sampleRepo_def run_exec_def gitStatusCmd_def aheadCmd_def
        behindCmd_def startsWith_def isDirtyOf_def untrackedOf_def orZero_def parseInt10_def
        trim_def trimStart_def trimEnd_def isWhiteSpace_def isDigit_def digitValue_def
        code_def)

text \<open>A call in a working copy with nothing to stage: two commands, one message.\<close>

lemma syncToGitea_clean:
  assumes "cleanAfterStaging env repoPath (world h)"
  shows "commands (syncToGitea env repoPath branch h)
           = commands h @ [(''git add -A'', repoPath), (gitStatusCmd, repoPath)]
       \<and> messages (syncToGitea env repoPath branch h)
           = messages h @ [InformationMessage noChangesMessage]"
  using assms
  by (auto simp: cleanAfterStaging_def syncToGitea_def run_exec_def notify_def
           split: prod.splits sum.splits)

text \<open>A call that ended with an information message leaves nothing to stage.\<close>

lemma syncToGitea_success_clean:
  assumes env: "noInterveningChange env repoPath branch"
    and ok: "messages (syncToGitea env repoPath branch h0) = messages h0 @ [InformationMessage m]"
  shows "cleanAfterStaging env repoPath (world (syncToGitea env repoPath branch h0))
       \<and> (\<exists>more. commands (syncToGitea env repoPath branch h0)
                    = commands h0 @ [(''git add -A'', repoPath), (gitStatusCmd, repoPath)] @ more)"
proof -
  obtain r1 w1 where e1: "exec env (world h0) ''git add -A'' repoPath = (r1, w1)"
    by (cases "exec env (world h0) ''git add -A'' repoPath")
  show ?thesis
  proof (cases r1)
    case (Inl e)
    with ok e1 show ?thesis
      by (simp add: syncToGitea_def run_exec_def syncFailed_def notify_def)
  next
    case (Inr a)
    note r1 = this
    obtain r2 w2 where e2: "exec env w1 gitStatusCmd repoPath = (r2, w2)"
      by (cases "exec env w1 gitStatusCmd repoPath")
    show ?thesis
    proof (cases r2)
      case (Inl e)
      with ok e1 r1 e2 show ?thesis
        by (simp add: syncToGitea_def run_exec_def syncFailed_def notify_def)
    next
      case (Inr out)
      note r2 = this
      from env e1 e2 r1 r2 have
        g1: "trim out = [] \<Longrightarrow> cleanAfterStaging env repoPath w2" and
        g2: "\<And>m w3 b w4 c w5. showInputBox env w2 = (Some m, w3) \<Longrightarrow>
               exec env w3 (commitCmd m) repoPath = (Inr b, w4) \<Longrightarrow>
               exec env w4 (pushCmd branch) repoPath = (Inr c, w5) \<Longrightarrow>
               cleanAfterStaging env repoPath w5"
        unfolding noInterveningChange_def by blast+
      show ?thesis
      proof (cases "trim out = []")
        case True
        with e1 r1 e2 r2 g1 show ?thesis
          by (simp add: syncToGitea_def run_exec_def notify_def)
      next
        case False
        note dirty = this
        obtain ans w3 where e3: "showInputBox env w2 = (ans, w3)"
          by (cases "showInputBox env w2")
        show ?thesis
        proof (cases ans)
          case None
          with ok e1 r1 e2 r2 dirty e3 show ?thesis
            by (simp add: syncToGitea_def run_exec_def notify_def)
        next
          case (Some msg)
          note ans = this
          show ?thesis
          proof (cases "msg = []")
            case True
            with ok e1 r1 e2 r2 dirty e3 ans show ?thesis
              by (simp add: syncToGitea_def run_exec_def notify_def)
          next
            case False
            note msg = this
            obtain r4 w4 where e4: "exec env w3 (commitCmd msg) repoPath = (r4, w4)"
              by (cases "exec env w3 (commitCmd msg) repoPath")
            show ?thesis
            proof (cases r4)
              case (Inl e)
              with ok e1 r1 e2 r2 dirty e3 ans msg e4 show ?thesis
                by (simp add: syncToGitea_def run_exec_def syncFailed_def notify_def)
            next
              case (Inr b)
              note r4 = this
              obtain r5 w5 where e5: "exec env w4 (pushCmd branch) repoPath = (r5, w5)"
                by (cases "exec env w4 (pushCmd branch) repoPath")
              show ?thesis
              proof (cases r5)
                case (Inl e)
                with ok e1 r1 e2 r2 dirty e3 ans msg e4 r4 e5 show ?thesis
                  by (simp add: syncToGitea_def run_exec_def syncFailed_def notify_def)
              next
                case (Inr c)
                with g2[of msg w3 b w4 c w5] e3 ans e4 r4 e5
                have "cleanAfterStaging env repoPath w5" by simp
                with e1 r1 e2 r2 dirty e3 ans msg e4 r4 e5 Inr show ?thesis
                  by (simp add: syncToGitea_def run_exec_def notify_def)
              qed
            qed
          qed
        qed
      qed
    qed
  qed
qed

text \<open>
  C9. When nothing changes the working copy between two calls and the first call
  succeeded (it ended with the message that the changes were synced, or that there was
  nothing to sync), the first call began with the stage-all and the status query, and
  the second call runs the stage-all and the status query and nothing else (no commit,
  no push), and reports that there are no changes.
\<close>

theorem syncToGitea_twice:
  assumes "noInterveningChange env repoPath branch"
    and "h1 = syncToGitea env repoPath branch h0"
    and "messages h1 = messages h0 @ [InformationMessage syncedMessage]
         \<or> messages h1 = messages h0 @ [InformationMessage noChangesMessage]"
  shows "(\<exists>more. commands h1
             = commands h0 @ [(''git add -A'', repoPath), (gitStatusCmd, repoPath)] @ more)
       \<and> commands (syncToGitea env repoPath branch h1)
           = commands h1 @ [(''git add -A'', repoPath), (gitStatusCmd, repoPath)]
       \<and> messages (syncToGitea env repoPath branch h1)
           = messages h1 @ [InformationMessage noChangesMessage]"
proof -
  from assms have first: "cleanAfterStaging env repoPath (world h1)
       \<and> (\<exists>more. commands h1
                = commands h0 @ [(''git add -A'', repoPath), (gitStatusCmd, repoPath)] @ more)"
    using syncToGitea_success_clean by blast
  then have "cleanAfterStaging env repoPath (world h1)" by simp
  from syncToGitea_clean[OF this] first show ?thesis by simp
qed

theorem syncToGitea_twice_witness:
  "noInterveningChange sampleRepo ''/work/repo'' ''main''
   \<and> (let h0 = \<lparr>world = '' M src/a.ts'' @ [LF], commands = [], messages = []\<rparr>;
           h1 = syncToGitea sampleRepo ''/work/repo'' ''main'' h0;
           h2 = syncToGitea sampleRepo ''/work/repo'' ''main'' h1
       in messages h1 = messages h0 @ [InformationMessage syncedMessage]
          \<and> commands h2
              = commands h1 @ [(''git add -A'', ''/work/repo''), (gitStatusCmd, ''/work/repo'')]
          \<and> messages h2 = messages h1 @ [InformationMessage noChangesMessage])"
proof -
  define h0 where
    "h0 = \<lparr>world = '' M src/a.ts'' @ [LF], commands = [], messages = ([] :: notification list)\<rparr>"
  define h1 where "h1 = syncToGitea sampleRepo ''/work/repo'' ''main'' h0"
  have quiet: "noInterveningChange sampleRepo ''/work/repo'' ''main''"
    by (auto simp: noInterveningChange_def cleanAfterStaging_def sampleRepo_def gitStatusCmd_def
          commitCmd_def pushCmd_def startsWith_def trim_def trimStart_def trimEnd_def
          split: if_splits)
  have first: "messages h1 = messages h0 @ [InformationMessage syncedMessage]"
    unfolding h1_def h0_def
    by (simp add: syncToGitea_def sampleRepo_def run_exec_def notify_def gitStatusCmd_def
          commitCmd_def pushCmd_def startsWith_def trim_def trimStart_def trimEnd_def
          isWhiteSpace_def)
  from syncToGitea_twice [OF quiet h1_def] first quiet
  show ?thesis
    unfolding Let_def h1_def [symmetric] h0_def [symmetric] by blast
qed


section \<open>Properties of the URI Codec\<close>

subsection \<open>Splitting, joining and percent-encoding\<close>

lemma split_no_sep: "sep \<notin> set a \<Longrightarrow> split sep a = [a]"
  by (induction a) auto

lemma split_append_sep: "sep \<notin> set a \<Longrightarrow> split sep (a @ sep # b) = a # split sep b"
  by (induction a) auto

lemma join_split: "join [sep] (split sep s) = s"
proof (induction s)
  case Nil
  show ?case by simp
next
  case (Cons c s)
  obtain x xs where sp: "split sep s = x # xs"
    using split_not_Nil[of sep s] by (cases "split sep s") auto
  with Cons show ?case
    by (cases xs) auto
qed

lemma split_piece:
  "x \<in> set (split sep s) \<Longrightarrow> set x \<subseteq> set s \<and> sep \<notin> set x"
proof (induction s arbitrary: x)
  case Nil
  then show ?case by simp
next
  case (Cons c s)
  obtain y ys where sp: "split sep s = y # ys"
    using split_not_Nil[of sep s] by (cases "split sep s") auto
  have y: "set y \<subseteq> set s \<and> sep \<notin> set y" using Cons.IH[of y] sp by simp
  have ys: "\<And>z. z \<in> set ys \<Longrightarrow> set z \<subseteq> set s \<and> sep \<notin> set z" using Cons.IH sp by simp
  show ?case
  proof (cases "c = sep")
    case True
    with Cons.prems sp have "x = [] \<or> x = y \<or> x \<in> set ys" by auto
    with y ys show ?thesis by auto
  next
    case False
    with Cons.prems sp have "x = c # y \<or> x \<in> set ys" by auto
    with y ys False show ?thesis by auto
  qed
qed

lemma split_segments:
  "sep \<notin> set a \<Longrightarrow> \<forall>seg \<in> set segs. sep \<notin> set seg \<Longrightarrow>
     split sep (a @ concat (map (\<lambda>seg. sep # seg) segs)) = a # segs"
  by (induction segs arbitrary: a) (auto simp: split_no_sep split_append_sep)

lemma percentEncode_id: "\<forall>c \<in> set s. \<not> P c \<Longrightarrow> percentEncode P s = s"
  by (induction s) (auto simp: percentEncode_def)

lemma hexDigit_hex: "n < 16 \<Longrightarrow> isHexDigit (hexDigit n) \<and> hexValue (hexDigit n) = n"
proof -
  have "list_all (\<lambda>n. isHexDigit (hexDigit n) \<and> hexValue (hexDigit n) = n) [0..<16]"
    by code_simp
  moreover assume "n < 16"
  ultimately show ?thesis by (simp add: list_all_iff)
qed

lemma code_less_256: "code c < 256"
  unfolding code_def by simp

lemma char_of_code: "char_of (16 * (code c div 16) + code c mod 16) = c"
  by (simp add: code_def)

lemma percentEncodeByte_hex:
  "\<exists>h1 h2. percentEncodeByte c = [CHR ''%'', h1, h2] \<and> isHexDigit h1 \<and> isHexDigit h2
     \<and> char_of (16 * hexValue h1 + hexValue h2) = c"
proof -
  have hi: "code c div 16 < 16" using code_less_256[of c] by simp
  have lo: "code c mod 16 < 16" by simp
  show ?thesis
    using hexDigit_hex[OF hi] hexDigit_hex[OF lo] char_of_code[of c]
    by (simp add: percentEncodeByte_def)
qed

lemma percentDecode_percentEncode:
  "CHR ''%'' \<notin> set s \<Longrightarrow> percentDecode (percentEncode P s) = s"
proof (induction s)
  case Nil
  show ?case by (simp add: percentEncode_def)
next
  case (Cons c s)
  from Cons have IH: "percentDecode (percentEncode P s) = s" and c: "c \<noteq> CHR ''%''" by auto
  show ?case
  proof (cases "P c")
    case True
    obtain h1 h2 where "percentEncodeByte c = [CHR ''%'', h1, h2]" "isHexDigit h1" "isHexDigit h2"
      "char_of (16 * hexValue h1 + hexValue h2) = c"
      using percentEncodeByte_hex by blast
    with True IH show ?thesis
      by (simp add: percentEncode_def)
  next
    case False
    then show ?thesis using IH c by (simp add: percentEncode_def)
  qed
qed

lemma percentEncode_chars:
  "x \<in> set (percentEncode P s) \<Longrightarrow> x \<in> set s \<or> x = CHR ''%'' \<or> isHexDigit x"
proof (induction s)
  case Nil
  then show ?case by (simp add: percentEncode_def)
next
  case (Cons c s)
  obtain h1 h2 where "percentEncodeByte c = [CHR ''%'', h1, h2]" "isHexDigit h1" "isHexDigit h2"
    using percentEncodeByte_hex by blast
  with Cons show ?case
    by (auto simp: percentEncode_def split: if_splits)
qed

subsection \<open>Evaluating the parser on a given text\<close>

text \<open>
  \<open>split\<close> with the recursive call taken once, so that a long text is split in a number
  of steps proportional to its length.
\<close>

lemma split_Cons_case:
  "split sep (c # s) =
     (if c = sep then [] # split sep s
      else (case split sep s of x # xs \<Rightarrow> (c # x) # xs | [] \<Rightarrow> [[c]]))"
  using split_not_Nil[of sep s] by (cases "split sep s") auto

lemmas url_eval = parseGiteaUri_def newURL_def sanitize_def parseScheme_def
  isC0ControlOrSpace_def code_def isTabOrNewline_def isAlpha_def isSchemeChar_def isDigit_def
  toLower_def isSpecialScheme_def startsWith_def isAuthorityEnd_def parseAuthority_def
  parseHost_def isForbiddenHostCodePoint_def percentEncode_def inC0ControlSet_def
  parsePathAndQuery_def isQueryOrFragmentStart_def parseQuery_def inPathSet_def inQuerySet_def
  isDoubleDot_def isSingleDot_def protocol_def pathname_def hostname_def searchParamsGet_def
  parseUrlEncoded_def formDecode_def

lemmas uri_eval = createGiteaUri_def url_eval split_Cons_case validPort_def decimalValue_def
  digitValue_def percentEncodeByte_def hexDigit_def hexValue_def isHexDigit_def
  parseOpaquePath_def

subsection \<open>Malformed addresses\<close>

lemma slash_not_encoded: "CHR ''/'' \<notin> set piece \<Longrightarrow> CHR ''/'' \<notin> set (percentEncode P piece)"
  using percentEncode_chars[of "CHR ''/''" P piece]
  by (auto simp: isHexDigit_def isDigit_def code_def)

lemma buildPath_no_slash:
  "\<forall>seg \<in> set acc. CHR ''/'' \<notin> set seg \<Longrightarrow> \<forall>piece \<in> set pieces. CHR ''/'' \<notin> set piece \<Longrightarrow>
     \<forall>seg \<in> set (buildPath acc pieces). CHR ''/'' \<notin> set seg"
proof (induction acc pieces rule: buildPath.induct)
  case (1 acc)
  then show ?case by simp
next
  case (2 acc piece rest)
  have bl: "\<forall>seg \<in> set (butlast acc). CHR ''/'' \<notin> set seg"
    using "2.prems"(1) by (meson in_set_butlastD)
  have enc: "CHR ''/'' \<notin> set (percentEncode inPathSet piece)"
    using "2.prems"(2) by (simp add: slash_not_encoded)
  show ?case
  proof (cases "isDoubleDot (percentEncode inPathSet piece)")
    case True
    then show ?thesis using "2.IH"(1)[OF refl True] bl "2.prems"(2) by (auto simp: Let_def)
  next
    case False
    note nd = this
    show ?thesis
    proof (cases "isSingleDot (percentEncode inPathSet piece)")
      case True
      then show ?thesis using "2.IH"(2)[OF refl nd True] nd "2.prems" by (auto simp: Let_def)
    next
      case False
      then show ?thesis using "2.IH"(3)[OF refl nd False] nd "2.prems" enc by (auto simp: Let_def)
    qed
  qed
qed

lemma parsePathAndQuery_no_slash:
  "parsePathAndQuery rest = (Segments segs, q) \<Longrightarrow> \<forall>seg \<in> set segs. CHR ''/'' \<notin> set seg"
  using buildPath_no_slash[of "[]"] split_piece[of _ "CHR ''/''"]
  by (auto simp: parsePathAndQuery_def split: list.splits if_splits)

lemma newURL_segments_no_slash:
  assumes "newURL ipv6 uri = ParsedURL u" and "urlPath u = Segments segs"
  shows "\<forall>seg \<in> set segs. CHR ''/'' \<notin> set seg"
  using assms parsePathAndQuery_no_slash
  by (auto simp: newURL_def Let_def split: option.splits if_splits prod.splits)

lemma pathname_parts:
  assumes "\<forall>seg \<in> set segs. CHR ''/'' \<notin> set seg"
  shows "split CHR ''/'' (drop 1 (concat (map (\<lambda>seg. CHR ''/'' # seg) segs)))
           = (if segs = [] then [[]] else segs)"
proof (cases segs)
  case Nil
  then show ?thesis by simp
next
  case (Cons x xs)
  with assms split_segments[of "CHR ''/''" x xs] show ?thesis by simp
qed

lemma newURL_scheme:
  "newURL ipv6 uri = ParsedURL u \<Longrightarrow> \<exists>rest. parseScheme (sanitize uri) = Some (scheme u, rest)"
  by (auto simp: newURL_def Let_def split: option.splits if_splits prod.splits)

text \<open>
  What parseGiteaUri does reject: every input whose scheme is not \<open>gitea\<close> (the input
  has no scheme at all, or another one), and every input whose path, as the URL parser
  cuts it, has fewer than two segments, an empty segment counting as one.
\<close>

lemma parseGiteaUri_malformed:
  assumes "(\<forall>rest. parseScheme (sanitize uri) \<noteq> Some (''gitea'', rest))
           \<or> (\<exists>u segs. newURL ipv6 uri = ParsedURL u \<and> urlPath u = Segments segs \<and> length segs < 2)"
  shows "parseGiteaUri ipv6 uri = Inl FailedToParseGiteaUri"
proof (cases "newURL ipv6 uri")
  case InvalidURL
  then show ?thesis by (simp add: parseGiteaUri_def)
next
  case (SpecialScheme s)
  then show ?thesis by (simp add: parseGiteaUri_def)
next
  case (ParsedURL u)
  from assms show ?thesis
  proof
    assume "\<forall>rest. parseScheme (sanitize uri) \<noteq> Some (''gitea'', rest)"
    with newURL_scheme[OF ParsedURL] have "scheme u \<noteq> ''gitea''" by auto
    with ParsedURL show ?thesis by (simp add: parseGiteaUri_def protocol_def)
  next
    assume "\<exists>u segs. newURL ipv6 uri = ParsedURL u \<and> urlPath u = Segments segs \<and> length segs < 2"
    with ParsedURL obtain segs where segs: "urlPath u = Segments segs" "length segs < 2" by auto
    have "\<forall>seg \<in> set segs. CHR ''/'' \<notin> set seg"
      using newURL_segments_no_slash[OF ParsedURL segs(1)] .
    from pathname_parts[OF this] segs
    have "length (split CHR ''/'' (drop 1 (pathname u))) < 2"
      by (simp add: pathname_def)
    with ParsedURL show ?thesis by (simp add: parseGiteaUri_def Let_def)
  qed
qed

lemma parseGiteaUri_malformed_samples:
  "(\<exists>u segs. newURL (\<lambda>a. None) ''gitea://host/onlyowner'' = ParsedURL u \<and> urlPath u = Segments segs
       \<and> length segs < 2)
   \<and> parseGiteaUri (\<lambda>a. None) ''gitea://host/onlyowner'' = Inl FailedToParseGiteaUri
   \<and> (\<forall>rest. parseScheme (sanitize ''http://host/owner/repo'') \<noteq> Some (''gitea'', rest))
   \<and> parseGiteaUri (\<lambda>a. None) ''http://host/owner/repo'' = Inl FailedToParseGiteaUri"
proof -
  have one: "\<exists>u segs. newURL (\<lambda>a. None) ''gitea://host/onlyowner'' = ParsedURL u
               \<and> urlPath u = Segments segs \<and> length segs < 2"
    by (simp add: newURL_def sanitize_def parseScheme_def isC0ControlOrSpace_def code_def
          isTabOrNewline_def isAlpha_def isSchemeChar_def isDigit_def toLower_def
          isSpecialScheme_def startsWith_def isAuthorityEnd_def parseAuthority_def
          parseHost_def isForbiddenHostCodePoint_def percentEncode_def inC0ControlSet_def
          parsePathAndQuery_def isQueryOrFragmentStart_def parseQuery_def inPathSet_def
          inQuerySet_def isDoubleDot_def isSingleDot_def)
  have two: "\<forall>rest. parseScheme (sanitize ''http://host/owner/repo'') \<noteq> Some (''gitea'', rest)"
    by (simp add: sanitize_def parseScheme_def isC0ControlOrSpace_def code_def
       isTabOrNewline_def isAlpha_def isSchemeChar_def isDigit_def toLower_def)
  from parseGiteaUri_malformed[of "''gitea://host/onlyowner''" "\<lambda>a. None"]
       parseGiteaUri_malformed[of "''http://host/owner/repo''" "\<lambda>a. None"] one two
  show ?thesis by blast
qed

text \<open>
  C7. An address that names an owner and no repository is accepted when a slash follows
  the owner: the check counts the pieces between the slashes of the path, and the empty
  piece after the last slash is one of them. \<open>gitea://host/owner/\<close> is parsed to an
  address with the empty repository name, \<open>gitea://host//\<close> to one with the empty
  owner and the empty repository name, although the message of the check is
  \<open>requires at least owner and repo\<close>.
\<close>

theorem parseGiteaUri_empty_repo:
  "parseGiteaUri (\<lambda>a. None) ''gitea://host/owner/''
     = Inr \<lparr>server = ''host'', owner = ''owner'', repo = [], path = [], ref = Some ''HEAD''\<rparr>
   \<and> parseGiteaUri (\<lambda>a. None) ''gitea://host//''
     = Inr \<lparr>server = ''host'', owner = [], repo = [], path = [], ref = Some ''HEAD''\<rparr>"
  by (simp add: uri_eval del: split.simps(2))

text \<open>
  Without the slash after the owner, and for a path that is no list of segments, the
  same check fails as its message says.
\<close>

lemma parseGiteaUri_only_owner:
  "parseGiteaUri (\<lambda>a. None) ''gitea://host/onlyowner'' = Inl FailedToParseGiteaUri
   \<and> parseGiteaUri (\<lambda>a. None) ''gitea://host'' = Inl FailedToParseGiteaUri
   \<and> parseGiteaUri (\<lambda>a. None) ''gitea:onlyowner'' = Inl FailedToParseGiteaUri"
  by (simp add: uri_eval del: split.simps(2))

subsection \<open>The round trip\<close>

lemma sanitize_id: "list_all isPrintable x \<Longrightarrow> sanitize x = x"
proof -
  assume a: "list_all isPrintable x"
  then have nc: "\<forall>c \<in> set x. \<not> isC0ControlOrSpace c" and nt: "\<forall>c \<in> set x. \<not> isTabOrNewline c"
    by (auto simp: list_all_iff isPrintable_def isC0ControlOrSpace_def isTabOrNewline_def code_def)
  have d1: "dropWhile isC0ControlOrSpace x = x"
    using nc by (cases x) auto
  have d2: "dropWhile isC0ControlOrSpace (rev x) = rev x"
    using nc by (cases "rev x") (auto simp: rev_eq_Cons_iff) 
  show ?thesis using nt by (simp add: sanitize_def d1 d2)
qed

lemma scanHost_plain:
  "\<forall>c \<in> set s. c \<noteq> CHR '':'' \<and> c \<noteq> CHR ''['' \<and> c \<noteq> CHR '']'' \<Longrightarrow> scanHost False s = (s, None)"
  by (induction s) auto

lemma parseAuthority_valid: "validServer s \<Longrightarrow> parseAuthority ipv6 s = Some s"
proof -
  assume v: "validServer s"
  then have nf: "\<forall>c \<in> set s. \<not> isForbiddenHostCodePoint c" and pr: "\<forall>c \<in> set s. isPrintable c"
    by (auto simp: validServer_def list_all_iff)
  from nf have noat: "CHR 0x40 \<notin> set s" by (auto simp: isForbiddenHostCodePoint_def)
  from nf have "\<forall>c \<in> set s. c \<noteq> CHR '':'' \<and> c \<noteq> CHR ''['' \<and> c \<noteq> CHR '']''"
    by (auto simp: isForbiddenHostCodePoint_def)
  then have sh: "scanHost False s = (s, None)" by (rule scanHost_plain)
  from nf have hd: "\<not> (s \<noteq> [] \<and> hd s = CHR ''['')"
    by (cases s) (auto simp: isForbiddenHostCodePoint_def)
  from pr have enc: "percentEncode inC0ControlSet s = s"
    by (intro percentEncode_id) (auto simp: isPrintable_def inC0ControlSet_def)
  from nf have "\<not> list_ex isForbiddenHostCodePoint s" by (simp add: list_ex_iff)
  with noat sh hd enc show ?thesis
    by (auto simp: parseAuthority_def parseHost_def)
qed

lemma buildPath_plain:
  "\<forall>piece \<in> set pieces. (\<forall>c \<in> set piece. \<not> inPathSet c) \<and> notDotSegment piece \<Longrightarrow>
     buildPath acc pieces = acc @ pieces"
proof (induction pieces arbitrary: acc)
  case Nil
  show ?case by simp
next
  case (Cons piece rest)
  then have "percentEncode inPathSet piece = piece" "notDotSegment piece"
    by (auto intro: percentEncode_id)
  with Cons show ?case
    by (simp add: Let_def notDotSegment_def)
qed


lemma takeWhile_stop:
  "\<forall>c \<in> set a. P c \<Longrightarrow> \<not> P x \<Longrightarrow> takeWhile P (a @ x # b) = a"
  by (induction a) auto

lemma dropWhile_stop:
  "\<forall>c \<in> set a. P c \<Longrightarrow> \<not> P x \<Longrightarrow> dropWhile P (a @ x # b) = x # b"
  by (induction a) auto

lemma takeWhile_all: "\<forall>c \<in> set a. P c \<Longrightarrow> takeWhile P a = a"
  by (induction a) auto

lemma dropWhile_all: "\<forall>c \<in> set a. P c \<Longrightarrow> dropWhile P a = []"
  by (induction a) auto

text \<open>The path and the query the URL parser reads after the host of a created URI.\<close>

lemma parsePathAndQuery_created:
  assumes o: "validName ow" and r: "validName rp" and p: "validPath p"
    and q: "q = [] \<or> hd q = CHR ''?''"
  shows "parsePathAndQuery (''/'' @ ow @ ''/'' @ rp @ (if p \<noteq> [] then ''/'' @ p else []) @ q)
           = (Segments (ow # rp # (if p \<noteq> [] then split CHR ''/'' p else [])), parseQuery q)"
proof -
  let ?stop = "\<lambda>x. \<not> isQueryOrFragmentStart x"
  let ?fp = "if p \<noteq> [] then ''/'' @ p else []"
  let ?y = "ow @ ''/'' @ rp @ ?fp"
  have oc: "\<forall>c \<in> set ow. \<not> inPathSet c \<and> c \<noteq> CHR ''/''" and od: "notDotSegment ow"
    using o by (auto simp: validName_def list_all_iff)
  have rc: "\<forall>c \<in> set rp. \<not> inPathSet c \<and> c \<noteq> CHR ''/''" and rd: "notDotSegment rp"
    using r by (auto simp: validName_def list_all_iff)
  have pc: "\<forall>c \<in> set p. \<not> inPathSet c" and pd: "\<forall>seg \<in> set (split CHR ''/'' p). notDotSegment seg"
    using p by (auto simp: validPath_def list_all_iff)
  have slash: "\<not> inPathSet CHR ''/''"
    by (simp add: inPathSet_def inQuerySet_def inC0ControlSet_def code_def)
  have stop: "\<And>c. \<not> inPathSet c \<Longrightarrow> ?stop c"
    by (simp add: isQueryOrFragmentStart_def inPathSet_def inQuerySet_def)
  have "\<forall>c \<in> set ?y. \<not> inPathSet c"
    using oc rc pc slash by auto
  with stop have ystop: "\<forall>c \<in> set ?y. ?stop c" by blast
  have tw: "takeWhile ?stop (?y @ q) = ?y"
  proof (cases q)
    case Nil
    then show ?thesis using takeWhile_all[OF ystop] by simp
  next
    case (Cons c q')
    with q have "c = CHR ''?''" by simp
    with Cons show ?thesis using takeWhile_stop[OF ystop, of c q']
      by (simp add: isQueryOrFragmentStart_def)
  qed
  have dw: "dropWhile ?stop (?y @ q) = q"
  proof (cases q)
    case Nil
    then show ?thesis using dropWhile_all[OF ystop] by simp
  next
    case (Cons c q')
    with q have "c = CHR ''?''" by simp
    with Cons show ?thesis using dropWhile_stop[OF ystop, of c q']
      by (simp add: isQueryOrFragmentStart_def)
  qed
  have pieces: "split CHR ''/'' ?y = ow # rp # (if p \<noteq> [] then split CHR ''/'' p else [])"
  proof -
    have "CHR ''/'' \<notin> set ow" "CHR ''/'' \<notin> set rp" using oc rc by auto
    then show ?thesis by (simp add: split_append_sep split_no_sep)
  qed
  have plain: "\<forall>piece \<in> set (ow # rp # (if p \<noteq> [] then split CHR ''/'' p else [])).
                 (\<forall>c \<in> set piece. \<not> inPathSet c) \<and> notDotSegment piece"
  proof (cases "p = []")
    case True
    then show ?thesis using oc od rc rd by simp
  next
    case False
    have "\<forall>piece \<in> set (split CHR ''/'' p). (\<forall>c \<in> set piece. \<not> inPathSet c) \<and> notDotSegment piece"
      using pc pd split_piece[of _ "CHR ''/''" p] by blast
    with False show ?thesis using oc od rc rd by simp
  qed
  have "parsePathAndQuery (CHR ''/'' # (?y @ q))
          = (Segments (buildPath [] (split CHR ''/'' ?y)), parseQuery q)"
    unfolding parsePathAndQuery_def by (simp only: list.case tw dw simp_thms if_True)
  moreover have "buildPath [] (split CHR ''/'' ?y) = ow # rp # (if p \<noteq> [] then split CHR ''/'' p else [])"
    using buildPath_plain[OF plain, of "[]"] by (simp only: pieces append_Nil)
  ultimately show ?thesis by simp
qed

lemma newURL_created:
  assumes s: "validServer s" and o: "validName ow" and r: "validName rp" and p: "validPath p"
    and q: "q = [] \<or> hd q = CHR ''?''" and qp: "list_all isPrintable q"
  shows "newURL ipv6 (''gitea://'' @ s @ ''/'' @ ow @ ''/'' @ rp @ (if p \<noteq> [] then ''/'' @ p else []) @ q)
           = ParsedURL \<lparr>scheme = ''gitea'', host = Some s,
                urlPath = Segments (ow # rp # (if p \<noteq> [] then split CHR ''/'' p else [])),
                urlQuery = parseQuery q\<rparr>"
proof -
  let ?t = "''/'' @ ow @ ''/'' @ rp @ (if p \<noteq> [] then ''/'' @ p else []) @ q"
  let ?x = "''gitea://'' @ s @ ?t"
  have sp: "list_all isPrintable s" using s by (simp add: validServer_def list_all_iff)
  have op: "list_all isPrintable ow" using o by (simp add: validName_def list_all_iff)
  have rp: "list_all isPrintable rp" using r by (simp add: validName_def list_all_iff)
  have pp: "list_all isPrintable p" using p by (simp add: validPath_def list_all_iff)
  have "list_all isPrintable ?x"
    using sp op rp pp qp by (simp add: isPrintable_def code_def)
  then have san: "sanitize ?x = ?x" by (rule sanitize_id)
  have sch: "parseScheme ?x = Some (''gitea'', ''//'' @ s @ ?t)"
    by (simp add: parseScheme_def isAlpha_def isSchemeChar_def isDigit_def toLower_def code_def)
  have sstop: "\<forall>c \<in> set s. \<not> isAuthorityEnd c"
    using s by (auto simp: validServer_def list_all_iff isForbiddenHostCodePoint_def isAuthorityEnd_def)
  have tw: "takeWhile (\<lambda>c. \<not> isAuthorityEnd c) (s @ ?t) = s"
    using takeWhile_stop[of s "\<lambda>c. \<not> isAuthorityEnd c" "CHR ''/''", OF sstop]
    by (simp add: isAuthorityEnd_def)
  have dw: "dropWhile (\<lambda>c. \<not> isAuthorityEnd c) (s @ ?t) = ?t"
    using dropWhile_stop[of s "\<lambda>c. \<not> isAuthorityEnd c" "CHR ''/''", OF sstop]
    by (simp add: isAuthorityEnd_def)
  have special: "\<not> isSpecialScheme ''gitea''" by (simp add: isSpecialScheme_def)
  have sw: "startsWith (''//'' @ s @ ?t) ''//''" by (simp add: startsWith_def)
  have d2: "drop 2 (''//'' @ s @ ?t) = s @ ?t" by simp
  show ?thesis
    unfolding newURL_def san sch
    by (simp only: option.case prod.case special sw d2 if_True if_False Let_def tw dw
          parseAuthority_valid[OF s] parsePathAndQuery_created[OF o r p q])
qed

lemma searchParams_no_query: "urlQuery u = None \<Longrightarrow> searchParamsGet u name = None"
  by (simp add: searchParamsGet_def parseUrlEncoded_def)

lemma searchParams_ref:
  assumes "validRef rf" and "urlQuery u = parseQuery (''?ref='' @ rf)"
  shows "searchParamsGet u ''ref'' = Some rf"
proof -
  let ?E = "percentEncode inQuerySet rf"
  have ne: "rf \<noteq> []" and
    ch: "\<forall>c \<in> set rf. c \<noteq> CHR ''#'' \<and> c \<noteq> CHR ''&'' \<and> c \<noteq> CHR ''+'' \<and> c \<noteq> CHR ''%''"
    using assms(1) by (auto simp: validRef_def list_all_iff)
  have tw: "takeWhile (\<lambda>x. x \<noteq> CHR ''#'') rf = rf"
    using ch by (intro takeWhile_all) auto
  have pq: "parseQuery (''?ref='' @ rf) = Some (''ref='' @ ?E)"
    by (simp add: parseQuery_def tw percentEncode_def inQuerySet_def inC0ControlSet_def code_def)
  have noamp: "CHR ''&'' \<notin> set (''ref='' @ ?E)"
    using percentEncode_chars[of "CHR ''&''" inQuerySet rf] ch
    by (auto simp: isHexDigit_def isDigit_def code_def)
  have noplus: "CHR ''+'' \<notin> set ?E"
    using percentEncode_chars[of "CHR ''+''" inQuerySet rf] ch
    by (auto simp: isHexDigit_def isDigit_def code_def)
  have "map (\<lambda>c. if c = CHR ''+'' then CHR 0x20 else c) ?E = ?E"
    using noplus by (intro map_idI) auto
  moreover have "percentDecode ?E = rf"
    using ch by (intro percentDecode_percentEncode) auto
  ultimately have dec: "formDecode ?E = rf" by (simp add: formDecode_def)
  have name: "formDecode ''ref'' = ''ref''" by (simp add: formDecode_def)
  have "parseUrlEncoded (''ref='' @ ?E) = [(''ref'', rf)]"
    unfolding parseUrlEncoded_def split_no_sep[OF noamp]
    using dec name by simp
  with assms(2) pq show ?thesis by (simp add: searchParamsGet_def)
qed

lemma parse_created:
  assumes s: "validServer s" and o: "validName ow" and r: "validName rp" and p: "validPath p"
    and q: "q = [] \<or> hd q = CHR ''?''" and qp: "list_all isPrintable q"
  shows "\<exists>u. urlQuery u = parseQuery q \<and>
           parseGiteaUri ipv6
             (''gitea://'' @ s @ ''/'' @ ow @ ''/'' @ rp @ (if p \<noteq> [] then ''/'' @ p else []) @ q)
           = Inr \<lparr>server = s, owner = ow, repo = rp, path = p,
                  ref = Some (case searchParamsGet u ''ref'' of
                                None \<Rightarrow> ''HEAD'' | Some x \<Rightarrow> if x = [] then ''HEAD'' else x)\<rparr>"
proof -
  define pieces where "pieces = (if p \<noteq> [] then split CHR ''/'' p else [])"
  define u where "u = \<lparr>scheme = ''gitea'', host = Some s, urlPath = Segments (ow # rp # pieces),
            urlQuery = parseQuery q\<rparr>"
  have new: "newURL ipv6
      (''gitea://'' @ s @ ''/'' @ ow @ ''/'' @ rp @ (if p \<noteq> [] then ''/'' @ p else []) @ q) = ParsedURL u"
    unfolding u_def pieces_def by (rule newURL_created[OF s o r p q qp])
  have ons: "CHR ''/'' \<notin> set ow" and rns: "CHR ''/'' \<notin> set rp"
    using o r by (auto simp: validName_def list_all_iff)
  have pns: "\<forall>seg \<in> set (rp # pieces). CHR ''/'' \<notin> set seg"
    using rns split_piece[of _ "CHR ''/''" p] by (auto simp: pieces_def)
  have "drop 1 (pathname u) = ow @ concat (map (\<lambda>seg. CHR ''/'' # seg) (rp # pieces))"
    by (simp add: pathname_def u_def)
  then have parts: "split CHR ''/'' (drop 1 (pathname u)) = ow # rp # pieces"
    using split_segments[OF ons pns] by simp
  have jn: "join ''/'' pieces = p"
    using join_split[of "CHR ''/''" p] by (simp add: pieces_def)
  have pr: "protocol u = ''gitea:''" and hn: "hostname u = s" and uq: "urlQuery u = parseQuery q"
    by (simp_all add: protocol_def hostname_def u_def)
  have "parseGiteaUri ipv6
             (''gitea://'' @ s @ ''/'' @ ow @ ''/'' @ rp @ (if p \<noteq> [] then ''/'' @ p else []) @ q)
           = Inr \<lparr>server = s, owner = ow, repo = rp, path = p,
                  ref = Some (case searchParamsGet u ''ref'' of
                                None \<Rightarrow> ''HEAD'' | Some x \<Rightarrow> if x = [] then ''HEAD'' else x)\<rparr>"
    unfolding parseGiteaUri_def new
    by (simp only: url_result.case pr hn parts Let_def) (simp add: jn)
  with uq show ?thesis by blast
qed

text \<open>
  C2. createGiteaUri writes the components into the string as they are, and
  parseGiteaUri returns what the URL parser makes of the string, so the components come
  back when the URL syntax carries them unchanged: for a host name, an owner, a
  repository name, a file path and a ref as described by \<open>validServer\<close>, \<open>validName\<close>,
  \<open>validPath\<close> and \<open>validRef\<close>, and a ref other than \<open>HEAD\<close>, parsing the created URI
  gives the components back. With the ref \<open>HEAD\<close> the created string ends with the file
  path, without a \<open>ref\<close> parameter, and parsing it gives the ref \<open>HEAD\<close>.
\<close>

theorem createGiteaUri_roundtrip:
  assumes "validServer s" and "validName ow" and "validName rp" and "validPath p"
  shows "(validRef rf \<and> rf \<noteq> ''HEAD'' \<longrightarrow>
            parseGiteaUri ipv6 (createGiteaUri s ow rp p (Some rf))
              = Inr \<lparr>server = s, owner = ow, repo = rp, path = p, ref = Some rf\<rparr>)
       \<and> createGiteaUri s ow rp p (Some ''HEAD'')
            = ''gitea://'' @ s @ ''/'' @ ow @ ''/'' @ rp @ (if p \<noteq> [] then ''/'' @ p else [])
       \<and> parseGiteaUri ipv6 (createGiteaUri s ow rp p (Some ''HEAD''))
            = Inr \<lparr>server = s, owner = ow, repo = rp, path = p, ref = Some ''HEAD''\<rparr>"
proof (intro conjI impI)
  assume rf: "validRef rf \<and> rf \<noteq> ''HEAD''"
  then have ne: "rf \<noteq> []" and pr: "list_all isPrintable rf"
    by (auto simp: validRef_def list_all_iff)
  have created: "createGiteaUri s ow rp p (Some rf)
      = ''gitea://'' @ s @ ''/'' @ ow @ ''/'' @ rp @ (if p \<noteq> [] then ''/'' @ p else []) @ (''?ref='' @ rf)"
    using rf ne by (simp add: createGiteaUri_def)
  have qp: "list_all isPrintable (''?ref='' @ rf)"
    using pr by (simp add: isPrintable_def code_def)
  obtain u where u: "urlQuery u = parseQuery (''?ref='' @ rf)" and
    parsed: "parseGiteaUri ipv6 (createGiteaUri s ow rp p (Some rf))
       = Inr \<lparr>server = s, owner = ow, repo = rp, path = p,
                  ref = Some (case searchParamsGet u ''ref'' of
                                None \<Rightarrow> ''HEAD'' | Some x \<Rightarrow> if x = [] then ''HEAD'' else x)\<rparr>"
    unfolding created
    using parse_created[OF assms, of "''?ref='' @ rf" ipv6] qp by auto
  from rf u have "searchParamsGet u ''ref'' = Some rf" by (intro searchParams_ref) auto
  with parsed ne show "parseGiteaUri ipv6 (createGiteaUri s ow rp p (Some rf))
              = Inr \<lparr>server = s, owner = ow, repo = rp, path = p, ref = Some rf\<rparr>"
    by simp
next
  show created: "createGiteaUri s ow rp p (Some ''HEAD'')
            = ''gitea://'' @ s @ ''/'' @ ow @ ''/'' @ rp @ (if p \<noteq> [] then ''/'' @ p else [])"
    by (simp add: createGiteaUri_def)
  obtain u where u: "urlQuery u = parseQuery []" and
    parsed: "parseGiteaUri ipv6 (createGiteaUri s ow rp p (Some ''HEAD''))
       = Inr \<lparr>server = s, owner = ow, repo = rp, path = p,
                  ref = Some (case searchParamsGet u ''ref'' of
                                None \<Rightarrow> ''HEAD'' | Some x \<Rightarrow> if x = [] then ''HEAD'' else x)\<rparr>"
    unfolding created
    using parse_created[OF assms, of "[]" ipv6] by auto
  from u have "searchParamsGet u ''ref'' = None"
    by (intro searchParams_no_query) (simp add: parseQuery_def)
  with parsed show "parseGiteaUri ipv6 (createGiteaUri s ow rp p (Some ''HEAD''))
            = Inr \<lparr>server = s, owner = ow, repo = rp, path = p, ref = Some ''HEAD''\<rparr>"
    by simp
qed

theorem createGiteaUri_roundtrip_witness:
  "validServer ''gitea.example.com'' \<and> validName ''user'' \<and> validName ''myrepo''
   \<and> validPath ''src/main.ts'' \<and> validRef ''feature/x'' \<and> ''feature/x'' \<noteq> ''HEAD''
   \<and> parseGiteaUri (\<lambda>a. None)
        (createGiteaUri ''gitea.example.com'' ''user'' ''myrepo'' ''src/main.ts'' (Some ''feature/x''))
      = Inr \<lparr>server = ''gitea.example.com'', owner = ''user'', repo = ''myrepo'',
              path = ''src/main.ts'', ref = Some ''feature/x''\<rparr>
   \<and> createGiteaUri ''gitea.example.com'' ''user'' ''myrepo'' ''src/main.ts'' (Some ''HEAD'')
      = ''gitea://gitea.example.com/user/myrepo/src/main.ts''
   \<and> parseGiteaUri (\<lambda>a. None)
        (createGiteaUri ''gitea.example.com'' ''user'' ''myrepo'' ''src/main.ts'' (Some ''HEAD''))
      = Inr \<lparr>server = ''gitea.example.com'', owner = ''user'', repo = ''myrepo'',
              path = ''src/main.ts'', ref = Some ''HEAD''\<rparr>"
proof -
  have v1: "validServer ''gitea.example.com''"
    by (simp add: validServer_def isPrintable_def isForbiddenHostCodePoint_def code_def)
  have v2: "validName ''user''" and v3: "validName ''myrepo''"
    by (simp_all add: validName_def notDotSegment_def isSingleDot_def isDoubleDot_def isPrintable_def
          inPathSet_def inQuerySet_def inC0ControlSet_def code_def)
  have v4: "validPath ''src/main.ts''"
    by (simp add: validPath_def notDotSegment_def isSingleDot_def isDoubleDot_def isPrintable_def
          inPathSet_def inQuerySet_def inC0ControlSet_def code_def)
  have v5: "validRef ''feature/x''"
    by (simp add: validRef_def isPrintable_def code_def)
  have v6: "''feature/x'' \<noteq> ''HEAD''" by simp
  note rt = createGiteaUri_roundtrip[OF v1 v2 v3 v4, of "''feature/x''" "\<lambda>a. None"]
  have a: "parseGiteaUri (\<lambda>a. None)
        (createGiteaUri ''gitea.example.com'' ''user'' ''myrepo'' ''src/main.ts'' (Some ''feature/x''))
      = Inr \<lparr>server = ''gitea.example.com'', owner = ''user'', repo = ''myrepo'',
              path = ''src/main.ts'', ref = Some ''feature/x''\<rparr>"
    using rt v5 v6 by blast
  have b: "createGiteaUri ''gitea.example.com'' ''user'' ''myrepo'' ''src/main.ts'' (Some ''HEAD'')
      = ''gitea://gitea.example.com/user/myrepo/src/main.ts''"
    using rt by simp
  have c: "parseGiteaUri (\<lambda>a. None)
        (createGiteaUri ''gitea.example.com'' ''user'' ''myrepo'' ''src/main.ts'' (Some ''HEAD''))
      = Inr \<lparr>server = ''gitea.example.com'', owner = ''user'', repo = ''myrepo'',
              path = ''src/main.ts'', ref = Some ''HEAD''\<rparr>"
    using rt by blast
  from v1 v2 v3 v4 v5 v6 a b c show ?thesis by blast
qed

text \<open>
  Components that do not come back. The port of a server is dropped, since the server
  is read from \<open>url.hostname\<close>. A space in the file path comes back percent-encoded, a
  \<open>..\<close> segment is resolved, and a \<open>#\<close> ends the path and hides the ref. A \<open>+\<close> in
  the ref comes back as a space.
\<close>

lemma createGiteaUri_changed:
  "parseGiteaUri (\<lambda>a. None)
        (createGiteaUri ''localhost:3000'' ''user'' ''myrepo'' ''src/main.ts'' (Some ''main''))
      = Inr \<lparr>server = ''localhost'', owner = ''user'', repo = ''myrepo'',
              path = ''src/main.ts'', ref = Some ''main''\<rparr>"
  "parseGiteaUri (\<lambda>a. None)
        (createGiteaUri ''gitea.example.com'' ''user'' ''myrepo'' ''my file.txt'' (Some ''main''))
      = Inr \<lparr>server = ''gitea.example.com'', owner = ''user'', repo = ''myrepo'',
              path = ''my%20file.txt'', ref = Some ''main''\<rparr>"
  "parseGiteaUri (\<lambda>a. None)
        (createGiteaUri ''gitea.example.com'' ''user'' ''myrepo'' ''docs/../README.md'' (Some ''main''))
      = Inr \<lparr>server = ''gitea.example.com'', owner = ''user'', repo = ''myrepo'',
              path = ''README.md'', ref = Some ''main''\<rparr>"
  "parseGiteaUri (\<lambda>a. None)
        (createGiteaUri ''gitea.example.com'' ''user'' ''myrepo'' ''a#b'' (Some ''main''))
      = Inr \<lparr>server = ''gitea.example.com'', owner = ''user'', repo = ''myrepo'',
              path = ''a'', ref = Some ''HEAD''\<rparr>"
  "parseGiteaUri (\<lambda>a. None)
        (createGiteaUri ''gitea.example.com'' ''user'' ''myrepo'' ''src/main.ts'' (Some ''c++''))
      = Inr \<lparr>server = ''gitea.example.com'', owner = ''user'', repo = ''myrepo'',
              path = ''src/main.ts'', ref = Some ''c  ''\<rparr>"
  by (simp_all add: uri_eval del: split.simps(2))

theorem createGiteaUri_roundtrip_counterexample:
  "parseGiteaUri (\<lambda>a. None)
        (createGiteaUri ''gitea.example.com'' ''user'' ''myrepo'' ''my file.txt'' (Some ''main''))
      \<noteq> Inr \<lparr>server = ''gitea.example.com'', owner = ''user'', repo = ''myrepo'',
               path = ''my file.txt'', ref = Some ''main''\<rparr>
   \<and> parseGiteaUri (\<lambda>a. None)
        (createGiteaUri ''gitea.example.com'' ''user'' ''myrepo'' ''docs/../README.md'' (Some ''main''))
      \<noteq> Inr \<lparr>server = ''gitea.example.com'', owner = ''user'', repo = ''myrepo'',
               path = ''docs/../README.md'', ref = Some ''main''\<rparr>
   \<and> parseGiteaUri (\<lambda>a. None)
        (createGiteaUri ''gitea.example.com'' ''user'' ''myrepo'' ''a#b'' (Some ''main''))
      \<noteq> Inr \<lparr>server = ''gitea.example.com'', owner = ''user'', repo = ''myrepo'',
               path = ''a#b'', ref = Some ''main''\<rparr>
   \<and> parseGiteaUri (\<lambda>a. None)
        (createGiteaUri ''gitea.example.com'' ''user'' ''myrepo'' ''src/main.ts'' (Some ''c++''))
      \<noteq> Inr \<lparr>server = ''gitea.example.com'', owner = ''user'', repo = ''myrepo'',
               path = ''src/main.ts'', ref = Some ''c++''\<rparr>
   \<and> parseGiteaUri (\<lambda>a. None)
        (createGiteaUri ''localhost:3000'' ''user'' ''myrepo'' ''src/main.ts'' (Some ''main''))
      \<noteq> Inr \<lparr>server = ''localhost:3000'', owner = ''user'', repo = ''myrepo'',
               path = ''src/main.ts'', ref = Some ''main''\<rparr>"
  by (simp add: createGiteaUri_changed)


section \<open>Properties of the Forge API Client\<close>

subsection \<open>Occurrences of a pattern\<close>

lemma startsWith_append_pattern: "startsWith s (p @ q) \<Longrightarrow> startsWith s p"
  unfolding startsWith_def
  by (metis append_eq_conv_conj length_append take_add take_all_iff append_take_drop_id take_take min.absorb1 le_add1)

lemma str_includes_prefix_pattern: "str_includes s (p @ q) \<Longrightarrow> str_includes s p"
  by (induction s) (auto dest: startsWith_append_pattern)

lemma endsWith_append: "endsWith (r @ p) p"
  by (simp add: endsWith_def)

lemma str_includes_drop: "str_includes (drop n s) p \<Longrightarrow> str_includes s p"
proof (induction s arbitrary: n)
  case Nil
  then show ?case by simp
next
  case (Cons c s)
  then show ?case by (cases n) auto
qed

lemma startsWith_self_drop: "startsWith (drop n s) p \<Longrightarrow> str_includes s p"
proof -
  assume a: "startsWith (drop n s) p"
  have "str_includes (drop n s) p"
    using a by (cases "drop n s") (auto simp: startsWith_def)
  then show ?thesis by (rule str_includes_drop)
qed

lemma endsWith_includes: "endsWith s p \<Longrightarrow> str_includes s p"
proof -
  assume e: "endsWith s p"
  then have "startsWith (drop (length s - length p) s) p"
    by (simp add: endsWith_def startsWith_def)
  then show ?thesis by (rule startsWith_self_drop)
qed

text \<open>
  A pattern without a border (no proper suffix of it is a prefix of it) that does not
  occur in \<open>r\<close> occurs in \<open>r @ pat\<close> at the end first.
\<close>

lemma removeFirst_suffix:
  assumes border: "\<And>k. 0 < k \<Longrightarrow> k < length pat \<Longrightarrow> drop k pat \<noteq> take (length pat - k) pat"
    and absent: "\<not> str_includes r pat"
  shows "removeFirst pat (r @ pat) = r"
  using absent
proof (induction r)
  case Nil
  show ?case by (cases pat) (simp_all add: startsWith_def)
next
  case (Cons c r)
  then have ns: "\<not> startsWith (c # r) pat" and IH: "removeFirst pat (r @ pat) = r" by auto
  have "\<not> startsWith ((c # r) @ pat) pat"
  proof
    assume sw: "startsWith ((c # r) @ pat) pat"
    let ?m = "length (c # r)"
    show False
    proof (cases "length pat \<le> ?m")
      case True
      have "take (length pat) ((c # r) @ pat) = take (length pat) (c # r)"
        using True by (simp only: take_append) simp
      with sw have "take (length pat) (c # r) = pat" by (simp only: startsWith_def)
      with ns show False by (simp add: startsWith_def)
    next
      case False
      then have lt: "?m < length pat" by simp
      have "take (length pat) ((c # r) @ pat) = (c # r) @ take (length pat - ?m) pat"
        using False by (simp only: take_append) simp
      with sw have "(c # r) @ take (length pat - ?m) pat = pat"
        by (simp only: startsWith_def)
      then have "drop ?m ((c # r) @ take (length pat - ?m) pat) = drop ?m pat" by simp
      then have "take (length pat - ?m) pat = drop ?m pat" by simp
      with border[of ?m] lt show False by simp
    qed
  qed
  with IH show ?case by simp
qed

lemma api_no_border:
  "0 < k \<Longrightarrow> k < length ''/api/v1'' \<Longrightarrow> drop k ''/api/v1'' \<noteq> take (length ''/api/v1'' - k) ''/api/v1''"
proof -
  have "list_all (\<lambda>k. drop k ''/api/v1'' \<noteq> take (length ''/api/v1'' - k) ''/api/v1'') [1..<7]"
    by code_simp
  moreover assume "0 < k" "k < length ''/api/v1''"
  ultimately show ?thesis by (simp add: list_all_iff)
qed

lemma version_no_border:
  "0 < k \<Longrightarrow> k < length ''/api/v1/version'' \<Longrightarrow>
     drop k ''/api/v1/version'' \<noteq> take (length ''/api/v1/version'' - k) ''/api/v1/version''"
proof -
  have "list_all (\<lambda>k. drop k ''/api/v1/version'' \<noteq> take (length ''/api/v1/version'' - k) ''/api/v1/version'') [1..<15]"
    by code_simp
  moreover assume "0 < k" "k < length ''/api/v1/version''"
  ultimately show ?thesis by (simp add: list_all_iff)
qed

lemma startsWith_split: "startsWith s p \<Longrightarrow> s = p @ drop (length p) s"
  unfolding startsWith_def by (metis append_take_drop_id)

lemma includes_http_https:
  "str_includes (''http://'' @ x) ''/api/v1'' = str_includes (''https://'' @ x) ''/api/v1''"
  by (simp add: startsWith_def)

lemma http_root_includes:
  assumes sch: "startsWith root ''http://'' \<or> startsWith root ''https://''"
    and inc: "str_includes (''http://'' @ stripScheme root) ''/api/v1''"
  shows "str_includes root ''/api/v1''"
proof (cases "startsWith root ''https://''")
  case True
  then have "root = ''https://'' @ drop (length ''https://'') root"
    by (rule startsWith_split)
  moreover from True have "stripScheme root = drop (length ''https://'') root"
    by (simp only: stripScheme_def if_True)
  ultimately show ?thesis using inc includes_http_https[of "drop (length ''https://'') root"]
    by metis
next
  case False
  with sch have h: "startsWith root ''http://''" by simp
  then have "root = ''http://'' @ drop (length ''http://'') root"
    by (rule startsWith_split)
  moreover from False h have "stripScheme root = drop (length ''http://'') root"
    by (simp only: stripScheme_def if_True if_False)
  ultimately show ?thesis using inc by metis
qed

subsection \<open>Protocol detection\<close>

lemma withApiSuffix_absent: "\<not> str_includes x ''/api/v1'' \<Longrightarrow> withApiSuffix x = x @ ''/api/v1''"
  using endsWith_includes[of x "''/api/v1''"] by (auto simp: withApiSuffix_def)

lemma withApiSuffix_present: "withApiSuffix (x @ ''/api/v1'') = x @ ''/api/v1''"
  using endsWith_append[of x "''/api/v1''"] by (simp add: withApiSuffix_def)

lemma testUrlOf_wellFormed: "wellFormedBase base root \<Longrightarrow> testUrlOf base = root"
  unfolding wellFormedBase_def testUrlOf_def
  using removeFirst_suffix[of "''/api/v1''" root, OF api_no_border] endsWith_append[of root "''/api/v1''"]
  by auto

lemma http_base_wellFormed:
  assumes "wellFormedBase base root"
  shows "removeFirst ''/api/v1/version'' (callUrl (httpProbe root)) = ''http://'' @ stripScheme root"
    and "\<not> str_includes (''http://'' @ stripScheme root) ''/api/v1''"
proof -
  from assms have sch: "startsWith root ''http://'' \<or> startsWith root ''https://''"
    and absent: "\<not> str_includes root ''/api/v1''"
    by (auto simp: wellFormedBase_def)
  show no: "\<not> str_includes (''http://'' @ stripScheme root) ''/api/v1''"
    using http_root_includes[OF sch] absent by blast
  have "\<not> str_includes (''http://'' @ stripScheme root) (''/api/v1'' @ ''/version'')"
    using no str_includes_prefix_pattern by blast
  then have no2: "\<not> str_includes (''http://'' @ stripScheme root) ''/api/v1/version''" by simp
  have "removeFirst ''/api/v1/version'' ((''http://'' @ stripScheme root) @ ''/api/v1/version'')
          = ''http://'' @ stripScheme root"
    using version_no_border no2 by (rule removeFirst_suffix)
  then show "removeFirst ''/api/v1/version'' (callUrl (httpProbe root)) = ''http://'' @ stripScheme root"
    by (simp add: httpProbe_def)
qed

lemma detectProtocol_cases:
  assumes wf: "wellFormedBase base root"
  shows "detectProtocol net base log =
     (case net log (httpsProbe root) of
        Inr res \<Rightarrow> (Inr root, log @ [httpsProbe root])
      | Inl err \<Rightarrow>
          if isSslError err
          then (case net (log @ [httpsProbe root]) (httpProbe root) of
                  Inr res \<Rightarrow> (Inr (if ok res then ''http://'' @ stripScheme root else root),
                              log @ [httpsProbe root, httpProbe root])
                | Inl e \<Rightarrow> (Inl err, log @ [httpsProbe root, httpProbe root]))
          else (Inr root, log @ [httpsProbe root]))"
  unfolding detectProtocol_def testUrlOf_wellFormed[OF wf] Let_def fetch_def
  using http_base_wellFormed(1)[OF wf]
  by (simp split: sum.splits)

lemma initializeConnection_cases:
  assumes wf: "wellFormedBase (baseUrl c) root" and nd: "\<not> protocolDetected c"
  shows "initializeConnection net c log =
     (case net log (httpsProbe root) of
        Inr res \<Rightarrow> (c\<lparr>protocolDetected := True\<rparr>, log @ [httpsProbe root])
      | Inl err \<Rightarrow>
          if isSslError err
          then (case net (log @ [httpsProbe root]) (httpProbe root) of
                  Inr res \<Rightarrow>
                    (if ok res
                     then c\<lparr>baseUrl := ''http://'' @ stripScheme root @ ''/api/v1'', protocolDetected := True\<rparr>
                     else c\<lparr>protocolDetected := True\<rparr>,
                     log @ [httpsProbe root, httpProbe root])
                | Inl e \<Rightarrow> (c\<lparr>protocolDetected := True\<rparr>, log @ [httpsProbe root, httpProbe root]))
          else (c\<lparr>protocolDetected := True\<rparr>, log @ [httpsProbe root]))"
proof -
  from wf have base: "baseUrl c = root @ ''/api/v1''" and absent: "\<not> str_includes root ''/api/v1''"
    by (auto simp: wellFormedBase_def)
  have keep: "c\<lparr>baseUrl := withApiSuffix root, protocolDetected := True\<rparr> = c\<lparr>protocolDetected := True\<rparr>"
    using base withApiSuffix_absent[OF absent] by simp
  have http: "withApiSuffix (''http://'' @ stripScheme root) = ''http://'' @ stripScheme root @ ''/api/v1''"
    using withApiSuffix_absent[OF http_base_wellFormed(2)[OF wf]] by simp
  show ?thesis
    unfolding initializeConnection_def detectProtocol_cases[OF wf]
    using nd keep http
    by (simp split: sum.splits)
qed

text \<open>
  The constructor makes a well-formed base URL of every host that does not itself
  contain the API suffix.
\<close>

lemma withScheme_scheme:
  "startsWith (withScheme h) ''http://'' \<or> startsWith (withScheme h) ''https://''"
  by (simp add: withScheme_def startsWith_def)

lemma newGiteaClient_wellFormed:
  assumes "h \<noteq> []" and "t \<noteq> []" and "\<not> str_includes (withScheme h) ''/api/v1''"
  shows "wellFormedBase (baseUrl (newGiteaClient cfg (Some h) (Some t))) (withScheme h)"
  using assms withScheme_scheme[of h] withApiSuffix_absent[of "withScheme h"]
  by (simp add: wellFormedBase_def newGiteaClient_def)

lemma request_detected:
  assumes "protocolDetected c"
  shows "snd (request net c endpoint m body log) = (c, log @ [requestCall c endpoint m body])"
  using assms
  by (simp add: request_def fetch_def split: sum.splits fetch_failure.splits option.splits)

text \<open>
  C3. For a client whose protocol is not yet detected and whose base URL is well formed:
  when the first probe (the version endpoint under the base URL, with an HTTPS agent)
  is answered with an ok response, it is the only request made and the base URL stays;
  when it is rejected with an SSL-class error and the probe over plain HTTP is answered
  with an ok response, the base URL becomes the HTTP one; when both are rejected, and
  in every case other than that fallback, the base URL stays. In every case the
  detection is marked as done, and a client so marked
  detects nothing again: each later request is one call, to its base URL followed by
  the endpoint.
\<close>

theorem protocol_detection:
  assumes wf: "wellFormedBase (baseUrl c) root" and nd: "\<not> protocolDetected c"
  shows
    "((\<exists>res. net log (httpsProbe root) = Inr res \<and> ok res) \<longrightarrow>
        initializeConnection net c log = (c\<lparr>protocolDetected := True\<rparr>, log @ [httpsProbe root]))
   \<and> ((\<exists>err res. net log (httpsProbe root) = Inl err \<and> isSslError err
          \<and> net (log @ [httpsProbe root]) (httpProbe root) = Inr res \<and> ok res) \<longrightarrow>
        initializeConnection net c log
          = (c\<lparr>baseUrl := ''http://'' @ stripScheme root @ ''/api/v1'', protocolDetected := True\<rparr>,
             log @ [httpsProbe root, httpProbe root]))
   \<and> ((\<exists>err err'. net log (httpsProbe root) = Inl err \<and> isSslError err
          \<and> net (log @ [httpsProbe root]) (httpProbe root) = Inl err') \<longrightarrow>
        initializeConnection net c log
          = (c\<lparr>protocolDetected := True\<rparr>, log @ [httpsProbe root, httpProbe root]))
   \<and> (\<not> (\<exists>err res. net log (httpsProbe root) = Inl err \<and> isSslError err
          \<and> net (log @ [httpsProbe root]) (httpProbe root) = Inr res \<and> ok res) \<longrightarrow>
        fst (initializeConnection net c log) = c\<lparr>protocolDetected := True\<rparr>)
   \<and> protocolDetected (fst (initializeConnection net c log))
   \<and> (\<forall>c' net' log' endpoint m body.
        protocolDetected c' \<longrightarrow>
          initializeConnection net' c' log' = (c', log')
          \<and> snd (request net' c' endpoint m body log') = (c', log' @ [requestCall c' endpoint m body])
          \<and> callUrl (requestCall c' endpoint m body) = baseUrl c' @ endpoint)"
proof (intro conjI impI allI)
  assume "\<exists>res. net log (httpsProbe root) = Inr res \<and> ok res"
  then show "initializeConnection net c log = (c\<lparr>protocolDetected := True\<rparr>, log @ [httpsProbe root])"
    unfolding initializeConnection_cases[OF wf nd] by auto
next
  assume "\<exists>err res. net log (httpsProbe root) = Inl err \<and> isSslError err
          \<and> net (log @ [httpsProbe root]) (httpProbe root) = Inr res \<and> ok res"
  then show "initializeConnection net c log
          = (c\<lparr>baseUrl := ''http://'' @ stripScheme root @ ''/api/v1'', protocolDetected := True\<rparr>,
             log @ [httpsProbe root, httpProbe root])"
    unfolding initializeConnection_cases[OF wf nd] by auto
next
  assume "\<exists>err err'. net log (httpsProbe root) = Inl err \<and> isSslError err
          \<and> net (log @ [httpsProbe root]) (httpProbe root) = Inl err'"
  then show "initializeConnection net c log
          = (c\<lparr>protocolDetected := True\<rparr>, log @ [httpsProbe root, httpProbe root])"
    unfolding initializeConnection_cases[OF wf nd] by auto
next
  assume "\<not> (\<exists>err res. net log (httpsProbe root) = Inl err \<and> isSslError err
          \<and> net (log @ [httpsProbe root]) (httpProbe root) = Inr res \<and> ok res)"
  then show "fst (initializeConnection net c log) = c\<lparr>protocolDetected := True\<rparr>"
    unfolding initializeConnection_cases[OF wf nd] by (auto split: sum.splits)
next
  show "protocolDetected (fst (initializeConnection net c log))"
    unfolding initializeConnection_cases[OF wf nd] by (simp split: sum.splits)
next
  fix c' :: GiteaClient and net' :: "'b network" and log' endpoint m body
  assume pd: "protocolDetected c'"
  then show "initializeConnection net' c' log' = (c', log')"
    by (simp add: initializeConnection_def)
  from pd show "snd (request net' c' endpoint m body log') = (c', log' @ [requestCall c' endpoint m body])"
    by (rule request_detected)
  show "callUrl (requestCall c' endpoint m body) = baseUrl c' @ endpoint"
    by (simp add: requestCall_def)
qed

lemma sampleClient_eq:
  "sampleClient = \<lparr>baseUrl = ''https://gitea.example.com/api/v1'', token = ''abc123'',
      protocolDetected = False, trustInsecureCerts = False, enableLogging = False\<rparr>"
  by (simp add: sampleClient_def newGiteaClient_def sampleSettings_def withScheme_def withApiSuffix_def
      startsWith_def endsWith_def)

theorem protocol_detection_witness:
  "wellFormedBase (baseUrl sampleClient) ''https://gitea.example.com''
   \<and> \<not> protocolDetected sampleClient
   \<and> initializeConnection httpsNetwork sampleClient []
       = (sampleClient\<lparr>protocolDetected := True\<rparr>, [httpsProbe ''https://gitea.example.com''])
   \<and> initializeConnection httpOnlyNetwork sampleClient []
       = (sampleClient\<lparr>baseUrl := ''http://gitea.example.com/api/v1'', protocolDetected := True\<rparr>,
          [httpsProbe ''https://gitea.example.com'', httpProbe ''https://gitea.example.com''])
   \<and> initializeConnection deadNetwork sampleClient []
       = (sampleClient\<lparr>protocolDetected := True\<rparr>,
          [httpsProbe ''https://gitea.example.com'', httpProbe ''https://gitea.example.com''])"
proof -
  let ?root = "''https://gitea.example.com''"
  have wf: "wellFormedBase (baseUrl sampleClient) ?root"
    by (simp add: sampleClient_eq wellFormedBase_def startsWith_def)
  have nd: "\<not> protocolDetected sampleClient"
    by (simp add: sampleClient_eq)
  have a: "\<exists>res. httpsNetwork [] (httpsProbe ?root) = Inr res \<and> ok res"
    by (simp add: httpsNetwork_def okResponse_def ok_def)
  have b: "\<exists>err res. httpOnlyNetwork [] (httpsProbe ?root) = Inl err \<and> isSslError err
          \<and> httpOnlyNetwork ([] @ [httpsProbe ?root]) (httpProbe ?root) = Inr res \<and> ok res"
    by (simp add: httpOnlyNetwork_def httpsProbe_def httpProbe_def stripScheme_def startsWith_def
          isSslError_def errorMsg_def sslErrors_def okResponse_def ok_def)
  have c: "\<exists>err err'. deadNetwork [] (httpsProbe ?root) = Inl err \<and> isSslError err
          \<and> deadNetwork ([] @ [httpsProbe ?root]) (httpProbe ?root) = Inl err'"
    by (simp add: deadNetwork_def isSslError_def errorMsg_def sslErrors_def startsWith_def)
  have strip: "''http://'' @ stripScheme ?root @ ''/api/v1'' = ''http://gitea.example.com/api/v1''"
    by (simp add: stripScheme_def startsWith_def)
  from protocol_detection[OF wf nd, of httpsNetwork "[]"] a
  have ra: "initializeConnection httpsNetwork sampleClient []
       = (sampleClient\<lparr>protocolDetected := True\<rparr>, [] @ [httpsProbe ?root])" by blast
  from protocol_detection[OF wf nd, of httpOnlyNetwork "[]"] b
  have rb: "initializeConnection httpOnlyNetwork sampleClient []
       = (sampleClient\<lparr>baseUrl := ''http://'' @ stripScheme ?root @ ''/api/v1'', protocolDetected := True\<rparr>,
          [] @ [httpsProbe ?root, httpProbe ?root])" by blast
  from protocol_detection[OF wf nd, of deadNetwork "[]"] c
  have rc: "initializeConnection deadNetwork sampleClient []
       = (sampleClient\<lparr>protocolDetected := True\<rparr>, [] @ [httpsProbe ?root, httpProbe ?root])" by blast
  from wf nd ra rb rc show ?thesis
    unfolding strip by simp
qed

subsection \<open>Failure policy\<close>

lemma request_not_ok:
  assumes "protocolDetected c" and "net log (requestCall c endpoint m body) = Inr res" and "\<not> ok res"
  shows "request net c endpoint m body log
           = (Inl (ApiError (status res) (statusText res) endpoint), c,
              log @ [requestCall c endpoint m body])"
  using assms by (simp add: request_def fetch_def)

lemma request_rejected:
  assumes "protocolDetected c"
    and "net log (requestCall c endpoint m body) = Inl (FetchFailure name' message)"
  shows "request net c endpoint m body log
           = (Inl (FetchError name' message), c, log @ [requestCall c endpoint m body])"
  using assms by (simp add: request_def fetch_def)

text \<open>
  C5. When the underlying request fails, getRepositoryContents returns the empty list,
  and every other operation fails with the error of the request. A response that is not
  ok makes the request fail with the API error that carries the status, the status text
  and the endpoint; a rejected \<open>fetch\<close> makes it fail with the error of the transport.
\<close>

theorem failure_policy:
  "(\<forall>e c' log'.
      request cnet c (contentsEndpoint ow rp (orDefault [] pathArg) (orDefault ''master'' refArg))
        GET None log = (Inl e, c', log')
      \<longrightarrow> getRepositoryContents cnet c ow rp pathArg refArg log = ([], c', log'))
   \<and> (\<forall>e c' log'.
      request net c (repoEndpoint ow rp @ ''/pulls?state='' @ stateText st) GET None log
        = (Inl e, c', log')
      \<longrightarrow> getPullRequests net c ow rp st log = (Inl e, c', log'))
   \<and> (\<forall>e c' log'.
      request net c (repoEndpoint ow rp @ ''/pulls/'' @ showNat n) GET None log
        = (Inl e, c', log')
      \<longrightarrow> getPullRequest net c ow rp n log = (Inl e, c', log'))
   \<and> (\<forall>e c' log'.
      request net c (repoEndpoint ow rp @ ''/pulls/'' @ showNat n @ ''/files'') GET None log
        = (Inl e, c', log')
      \<longrightarrow> getPullRequestFiles net c ow rp n log = (Inl e, c', log'))
   \<and> (\<forall>e c' log'.
      request net c (repoEndpoint ow rp @ ''/pulls/'' @ showNat n @ ''/comments'') GET None log
        = (Inl e, c', log')
      \<longrightarrow> getPullRequestComments net c ow rp n log = (Inl e, c', log'))
   \<and> (\<forall>e c' log'.
      request net c (repoEndpoint ow rp @ ''/pulls/'' @ showNat n @ ''/merge'') POST
        (Some [(''merge_method'', mergeMethodText mm)]) log = (Inl e, c', log')
      \<longrightarrow> mergePullRequest net c ow rp n mm log = (Inl e, c', log'))
   \<and> (\<forall>e c' log'.
      request net c (repoEndpoint ow rp @ ''/pulls/'' @ showNat n) PATCH
        (Some [(''state'', ''closed'')]) log = (Inl e, c', log')
      \<longrightarrow> closePullRequest net c ow rp n log = (Inl e, c', log'))
   \<and> (\<forall>e c' log'.
      request net c (repoEndpoint ow rp) GET None log = (Inl e, c', log')
      \<longrightarrow> getRepository net c ow rp log = (Inl e, c', log')
          \<and> getRepositoryDetail net c ow rp log = (Inl e, c', log'))
   \<and> (\<forall>e c' log'.
      request net c ''/user'' GET None log = (Inl e, c', log')
      \<longrightarrow> getCurrentUser net c log = (Inl e, c', log'))
   \<and> (\<forall>e c' log'.
      request cnet c (contentsEndpoint ow rp filePath (orDefault ''HEAD'' refArg)) GET None log
        = (Inl e, c', log')
      \<longrightarrow> getFileContent decode cnet c ow rp filePath refArg log = (Inl e, c', log')
          \<and> listDirectoryContents cnet c ow rp filePath refArg log = (Inl e, c', log'))
   \<and> (\<forall>e c' log'.
      request net c (repoEndpoint ow rp @ ''/branches'') GET None log = (Inl e, c', log')
      \<longrightarrow> getBranches net c ow rp log = (Inl e, c', log'))
   \<and> (\<forall>e c' log'.
      request net c (repoEndpoint ow rp @ ''/issues?state='' @ stateText st) GET None log
        = (Inl e, c', log')
      \<longrightarrow> getIssues net c ow rp st log = (Inl e, c', log'))
   \<and> (\<forall>e c' log'.
      request net c (repoEndpoint ow rp @ ''/issues/'' @ showNat n) GET None log
        = (Inl e, c', log')
      \<longrightarrow> getIssue net c ow rp n log = (Inl e, c', log'))
   \<and> (\<forall>e c' log'.
      request net c (repoEndpoint ow rp @ ''/branches'') POST
        (Some [(''new_branch_name'', branchName),
               (''old_branch_name'', orDefault ''main'' oldBranchName)]) log = (Inl e, c', log')
      \<longrightarrow> createBranch net c ow rp branchName oldBranchName log = (Inl e, c', log'))
   \<and> (\<forall>e c' log'.
      request net c ''/user/repos?limit=100'' GET None log = (Inl e, c', log')
      \<longrightarrow> getUserRepositories net c log = (Inl e, c', log'))
   \<and> (\<forall>e c' log'.
      request net c (''/users/'' @ ow @ ''/repos?limit=100'') GET None log = (Inl e, c', log')
      \<longrightarrow> getRepositoriesByOwner net c ow log = (Inl e, c', log'))
   \<and> (\<forall>e c' log'.
      request snet c (''/repos/search?q='' @ encodeURIComponent q @ ''&limit=''
                       @ showNat (orDefault 20 limit)) GET None log = (Inl e, c', log')
      \<longrightarrow> searchRepositories snet c q limit log = (Inl e, c', log'))
   \<and> (\<forall>res endpoint m body.
      protocolDetected c \<and> net log (requestCall c endpoint m body) = Inr res \<and> \<not> ok res
      \<longrightarrow> request net c endpoint m body log
            = (Inl (ApiError (status res) (statusText res) endpoint), c,
               log @ [requestCall c endpoint m body]))
   \<and> (\<forall>name' message endpoint m body.
      protocolDetected c \<and> net log (requestCall c endpoint m body) = Inl (FetchFailure name' message)
      \<longrightarrow> request net c endpoint m body log
            = (Inl (FetchError name' message), c, log @ [requestCall c endpoint m body]))"
  by (simp add: getRepositoryContents_def getPullRequests_def getPullRequest_def
        getPullRequestFiles_def getPullRequestComments_def mergePullRequest_def
        closePullRequest_def getRepository_def getRepositoryDetail_def getCurrentUser_def
        getFileContent_def listDirectoryContents_def getBranches_def getIssues_def getIssue_def
        createBranch_def getUserRepositories_def getRepositoriesByOwner_def
        searchRepositories_def request_not_ok request_rejected)

lemma detectedClient_detected: "protocolDetected detectedClient"
  by (simp add: detectedClient_def)

theorem failure_policy_witness:
  "getRepositoryContents deadNetwork detectedClient ''bob'' ''foo'' None None []
     = ([], detectedClient,
        [requestCall detectedClient (contentsEndpoint ''bob'' ''foo'' [] ''master'') GET None])
   \<and> getRepositoryContents notFoundNetwork detectedClient ''bob'' ''foo'' None None []
     = ([], detectedClient,
        [requestCall detectedClient (contentsEndpoint ''bob'' ''foo'' [] ''master'') GET None])
   \<and> getFileContent id deadNetwork detectedClient ''bob'' ''foo'' ''README.md'' None []
     = (Inl (FetchError ''FetchError'' ''read ECONNRESET''), detectedClient,
        [requestCall detectedClient (contentsEndpoint ''bob'' ''foo'' ''README.md'' ''HEAD'') GET None])
   \<and> listDirectoryContents notFoundNetwork detectedClient ''bob'' ''foo'' ''src'' None []
     = (Inl (ApiError 404 ''Not Found'' ''/repos/bob/foo/contents/src?ref=HEAD''), detectedClient,
        [requestCall detectedClient (contentsEndpoint ''bob'' ''foo'' ''src'' ''HEAD'') GET None])
   \<and> fst (mergePullRequest (notFoundNetwork :: unit network) detectedClient ''bob'' ''foo'' 5
            (Some Squash) [])
     = Inl (ApiError 404 ''Not Found'' ''/repos/bob/foo/pulls/5/merge'')"
proof -
  note pd = detectedClient_detected
  note t1 = failure_policy[where c = detectedClient and log = "[]" and cnet = deadNetwork
      and net = "deadNetwork :: contents_data network" and ow = "''bob''" and rp = "''foo''"
      and pathArg = None and refArg = None and filePath = "''README.md''" and decode = id]
  note t2 = failure_policy[where c = detectedClient and log = "[]" and cnet = notFoundNetwork
      and net = "notFoundNetwork :: contents_data network" and ow = "''bob''" and rp = "''foo''"
      and pathArg = None and refArg = None and filePath = "''src''"]
  note t3 = failure_policy[where c = detectedClient and log = "[]"
      and net = "notFoundNetwork :: unit network" and ow = "''bob''" and rp = "''foo''"
      and n = 5 and mm = "Some Squash"]
  have rq1: "\<And>endpoint. request (deadNetwork :: contents_data network) detectedClient endpoint GET None []
      = (Inl (FetchError ''FetchError'' ''read ECONNRESET''), detectedClient,
         [] @ [requestCall detectedClient endpoint GET None])"
    using pd by (simp add: request_def fetch_def deadNetwork_def)
  have rq2: "\<And>endpoint. request (notFoundNetwork :: contents_data network) detectedClient endpoint GET None []
      = (Inl (ApiError 404 ''Not Found'' endpoint), detectedClient,
         [] @ [requestCall detectedClient endpoint GET None])"
    using pd by (simp add: request_def fetch_def notFoundNetwork_def ok_def)
  have rq3: "\<And>endpoint m body. request (notFoundNetwork :: unit network) detectedClient endpoint m body []
      = (Inl (ApiError 404 ''Not Found'' endpoint), detectedClient,
         [] @ [requestCall detectedClient endpoint m body])"
    using pd by (simp add: request_def fetch_def notFoundNetwork_def ok_def)
  have a: "getRepositoryContents deadNetwork detectedClient ''bob'' ''foo'' None None []
     = ([], detectedClient,
        [] @ [requestCall detectedClient (contentsEndpoint ''bob'' ''foo'' (orDefault [] None)
           (orDefault ''master'' None)) GET None])"
    using t1[THEN conjunct1] rq1 by blast
  have b: "getRepositoryContents notFoundNetwork detectedClient ''bob'' ''foo'' None None []
     = ([], detectedClient,
        [] @ [requestCall detectedClient (contentsEndpoint ''bob'' ''foo'' (orDefault [] None)
           (orDefault ''master'' None)) GET None])"
    using t2[THEN conjunct1] rq2 by blast
  have c: "getFileContent id deadNetwork detectedClient ''bob'' ''foo'' ''README.md'' None []
     = (Inl (FetchError ''FetchError'' ''read ECONNRESET''), detectedClient,
        [] @ [requestCall detectedClient (contentsEndpoint ''bob'' ''foo'' ''README.md''
           (orDefault ''HEAD'' None)) GET None])"
    using t1[THEN conjunct2, THEN conjunct2, THEN conjunct2, THEN conjunct2, THEN conjunct2, THEN conjunct2, THEN conjunct2, THEN conjunct2, THEN conjunct2, THEN conjunct1] rq1 by blast
  have d: "listDirectoryContents notFoundNetwork detectedClient ''bob'' ''foo'' ''src'' None []
     = (Inl (ApiError 404 ''Not Found''
              (contentsEndpoint ''bob'' ''foo'' ''src'' (orDefault ''HEAD'' None))), detectedClient,
        [] @ [requestCall detectedClient (contentsEndpoint ''bob'' ''foo'' ''src''
           (orDefault ''HEAD'' None)) GET None])"
    using t2[THEN conjunct2, THEN conjunct2, THEN conjunct2, THEN conjunct2, THEN conjunct2, THEN conjunct2, THEN conjunct2, THEN conjunct2, THEN conjunct2, THEN conjunct1] rq2 by blast
  have f: "mergePullRequest (notFoundNetwork :: unit network) detectedClient ''bob'' ''foo'' 5
            (Some Squash) []
     = (Inl (ApiError 404 ''Not Found''
              (repoEndpoint ''bob'' ''foo'' @ ''/pulls/'' @ showNat 5 @ ''/merge'')), detectedClient,
        [] @ [requestCall detectedClient (repoEndpoint ''bob'' ''foo'' @ ''/pulls/'' @ showNat 5 @ ''/merge'')
           POST (Some [(''merge_method'', mergeMethodText (Some Squash))])])"
    using t3[THEN conjunct2, THEN conjunct2, THEN conjunct2, THEN conjunct2, THEN conjunct2, THEN conjunct1] rq3 by blast
  from a b c d f show ?thesis
    by (simp add: orDefault_def contentsEndpoint_def repoEndpoint_def showNat.simps digitChar_def)
qed


section \<open>Properties of the Virtual Filesystem Adapter\<close>

subsection \<open>Read-only operations\<close>

lemma readFile_error: "fst (readFile env fs uri log) = Inl e \<Longrightarrow> \<exists>e'. e = FailedToReadFile e'"
  by (auto simp: readFile_def split: option.splits prod.splits sum.splits)

lemma stat_error: "fst (stat env fs uri log) = Inl e \<Longrightarrow> e = FileNotFound uri"
  by (auto simp: stat_def split: prod.splits sum.splits)

lemma readDirectory_error: "fst (readDirectory env fs uri log) = Inl e \<Longrightarrow> e = FileNotFound uri"
  by (auto simp: readDirectory_def split: prod.splits sum.splits contents_data.splits)

lemma perform_no_permissions:
  "(\<exists>msg. fst (perform env operation fs log) = Inl (NoPermissions msg)) = isMutation operation"
proof (cases operation)
  case (ReadFile uri)
  have "\<And>msg. fst (readFile env fs uri log) \<noteq> Inl (NoPermissions msg)"
    using readFile_error by fastforce
  then have "\<And>msg. map_sum id Bytes (fst (readFile env fs uri log)) \<noteq> Inl (NoPermissions msg)"
    by (cases "fst (readFile env fs uri log)") auto
  with ReadFile show ?thesis
    by (simp add: perform_def isMutation_def split: prod.splits) (metis fst_conv)
next
  case (Stat uri)
  have "\<And>msg. fst (stat env fs uri log) \<noteq> Inl (NoPermissions msg)"
    using stat_error by fastforce
  then have "\<And>msg. map_sum id StatResult (fst (stat env fs uri log)) \<noteq> Inl (NoPermissions msg)"
    by (cases "fst (stat env fs uri log)") auto
  with Stat show ?thesis
    by (simp add: perform_def isMutation_def split: prod.splits) (metis fst_conv)
next
  case (ReadDirectory uri)
  have "\<And>msg. fst (readDirectory env fs uri log) \<noteq> Inl (NoPermissions msg)"
    using readDirectory_error by fastforce
  then have "\<And>msg. map_sum id DirectoryListing (fst (readDirectory env fs uri log)) \<noteq> Inl (NoPermissions msg)"
    by (cases "fst (readDirectory env fs uri log)") auto
  with ReadDirectory show ?thesis
    by (simp add: perform_def isMutation_def split: prod.splits) (metis fst_conv)
qed (simp_all add: perform_def isMutation_def writeFile_def deleteFile_def rename_def
      createDirectory_def)

text \<open>
  C6. Among the operations of the provider, the ones that fail with the no-permissions
  error are exactly writeFile, delete, rename and createDirectory; each of the four
  fails with it for every argument and leaves the provider and the network log as they
  were.
\<close>

theorem read_only_filesystem:
  "((\<exists>msg. fst (perform env operation fs log) = Inl (NoPermissions msg)) = isMutation operation)
   \<and> perform env (WriteFile uri content create overwrite) fs log
       = (Inl (NoPermissions ''Gitea remote files are read-only''), fs, log)
   \<and> perform env (Delete uri recursive) fs log
       = (Inl (NoPermissions ''Cannot delete remote files''), fs, log)
   \<and> perform env (Rename uri newUri overwrite) fs log
       = (Inl (NoPermissions ''Cannot rename remote files''), fs, log)
   \<and> perform env (CreateDirectory uri) fs log
       = (Inl (NoPermissions ''Cannot create remote directories''), fs, log)"
  using perform_no_permissions[of env operation fs log]
  by (simp add: perform_def writeFile_def deleteFile_def rename_def createDirectory_def)

subsection \<open>The content cache\<close>








text \<open>The definitions that evaluate the client on a given text.\<close>

lemmas client_eval = newGiteaClient_def getServerUrl_def withScheme_def withApiSuffix_def
  endsWith_def startsWith_def initializeConnection_def detectProtocol_def testUrlOf_def
  httpsProbe_def httpProbe_def stripScheme_def fetch_def request_def requestCall_def ok_def
  okResponse_def contentsEndpoint_def repoEndpoint_def orDefault_def

lemma parse_sample:
  "parseGiteaUri (\<lambda>s. None) ''gitea://gitea.example.com/bob/foo/README.md''
     = Inr \<lparr>server = ''gitea.example.com'', owner = ''bob'', repo = ''foo'',
             path = ''README.md'', ref = Some ''HEAD''\<rparr>"
  by (simp add: url_eval)

lemma client_sample:
  "getClient (sampleEnv net) emptyProvider ''gitea.example.com''
     = (Inr sampleClient, emptyProvider\<lparr>clients := [''gitea.example.com'' \<mapsto> sampleClient]\<rparr>)"
  by (simp add: getClient_def sampleEnv_def emptyProvider_def sampleClient_def client_eval sampleSettings_def Let_def)

lemma content_sample:
  "getFileContent (decodeBase64 (sampleEnv fileNetwork)) fileNetwork sampleClient ''bob'' ''foo'' ''README.md''
      (Some ''HEAD'') []
    = (Inr ''hello'', detectedClient,
       [httpsProbe ''https://gitea.example.com'',
        requestCall detectedClient ''/repos/bob/foo/contents/README.md?ref=HEAD'' GET None])"
  by (simp add: getFileContent_def sampleEnv_def fileNetwork_def detectedClient_def sampleClient_eq client_eval)



subsection \<open>stat and directories\<close>

text \<open>
  C10. Every stat that succeeds reports the type File, with the size of the encoded
  content that was fetched as a file. When the contents endpoint answers the address
  with a directory listing, stat fails with the file-not-found error of the URI, while
  readDirectory of the same URI succeeds with the entries of the listing.
\<close>

theorem stat_reports_files_only:
  "(\<forall>st fs' log'. stat env fs uri log = (Inr st, fs', log') \<longrightarrow>
       fileType st = File
       \<and> (\<exists>content. fst (fetchContent env fs uri log) = Inr content
              \<and> fileSize st = length (textEncode content)))
   \<and> (\<forall>g c fs1 entries c' log'.
         parseGiteaUri (ipv6Parser env) uri = Inr g
         \<and> getClient env fs (server g) = (Inr c, fs1)
         \<and> request (network env) c (contentsEndpoint (owner g) (repo g) (path g) (refOrHead g))
               GET None log = (Inr (Listing entries), c', log') \<longrightarrow>
         stat env fs uri log = (Inl (FileNotFound uri), putClient (server g) c' fs1, log')
         \<and> readDirectory env fs uri log
             = (Inr (map (\<lambda>entry. (entryName entry,
                                      if entryType entry = ''dir'' then Directory else File))
                       entries),
                putClient (server g) c' fs1, log'))"
proof (intro conjI allI impI)
  fix st fs' log'
  assume ok: "stat env fs uri log = (Inr st, fs', log')"
  obtain r fs0 log0 where f: "fetchContent env fs uri log = (r, fs0, log0)"
    by (cases "fetchContent env fs uri log") auto
  with ok obtain content where r: "r = Inr content"
    by (cases r) (auto simp: stat_def)
  from ok f r have st: "st = \<lparr>fileType = File, ctime = dateNow env 0, mtime = dateNow env 1,
                fileSize = length (textEncode content)\<rparr>"
    by (simp add: stat_def)
  then show "fileType st = File" by simp
  from st f r show "\<exists>content. fst (fetchContent env fs uri log) = Inr content
              \<and> fileSize st = length (textEncode content)"
    by simp
next
  fix g c fs1 entries c' log'
  assume a: "parseGiteaUri (ipv6Parser env) uri = Inr g
         \<and> getClient env fs (server g) = (Inr c, fs1)
         \<and> request (network env) c (contentsEndpoint (owner g) (repo g) (path g) (refOrHead g))
               GET None log = (Inr (Listing entries), c', log')"
  then have gf: "getFileContent (decodeBase64 env) (network env) c (owner g) (repo g) (path g)
                   (Some (refOrHead g)) log = (Inl FileContentNotFound, c', log')"
    by (simp add: getFileContent_def orDefault_def)
  from a have ld: "listDirectoryContents (network env) c (owner g) (repo g) (path g)
                   (Some (refOrHead g)) log = (Inr (Listing entries), c', log')"
    by (simp add: listDirectoryContents_def orDefault_def)
  from a gf show "stat env fs uri log = (Inl (FileNotFound uri), putClient (server g) c' fs1, log')"
    by (simp add: stat_def fetchContent_def)
  from a ld show "readDirectory env fs uri log
             = (Inr (map (\<lambda>entry. (entryName entry,
                                      if entryType entry = ''dir'' then Directory else File))
                       entries),
                putClient (server g) c' fs1, log')"
    by (simp add: readDirectory_def)
qed

lemma parse_sample_dir:
  "parseGiteaUri (\<lambda>s. None) ''gitea://gitea.example.com/bob/foo/src''
     = Inr \<lparr>server = ''gitea.example.com'', owner = ''bob'', repo = ''foo'',
             path = ''src'', ref = Some ''HEAD''\<rparr>"
  by (simp add: url_eval)

lemma request_sample_dir:
  "request directoryNetwork sampleClient ''/repos/bob/foo/contents/src?ref=HEAD'' GET None []
    = (Inr (Listing sampleEntries), detectedClient,
       [httpsProbe ''https://gitea.example.com'',
        requestCall detectedClient ''/repos/bob/foo/contents/src?ref=HEAD'' GET None])"
  by (simp add: directoryNetwork_def detectedClient_def sampleClient_eq client_eval)

theorem stat_reports_files_only_witness:
  "(let uri = ''gitea://gitea.example.com/bob/foo/src'';
        env = sampleEnv directoryNetwork
    in fst (stat env emptyProvider uri []) = Inl (FileNotFound uri)
       \<and> fst (readDirectory env emptyProvider uri [])
           = Inr [(''utils'', Directory), (''main.ts'', File)])
   \<and> (let uri = ''gitea://gitea.example.com/bob/foo/README.md'';
            env = sampleEnv fileNetwork
        in \<exists>fs' log'. stat env emptyProvider uri []
             = (Inr \<lparr>fileType = File, ctime = 1700000000, mtime = 1700000001, fileSize = 5\<rparr>,
                fs', log'))"
proof -
  let ?uri = "''gitea://gitea.example.com/bob/foo/src''"
  let ?env = "sampleEnv directoryNetwork"
  let ?g = "\<lparr>server = ''gitea.example.com'', owner = ''bob'', repo = ''foo'',
             path = ''src'', ref = Some ''HEAD''\<rparr>"
  have p: "parseGiteaUri (ipv6Parser ?env) ?uri = Inr ?g"
    using parse_sample_dir by (simp add: sampleEnv_def)
  have c: "getClient ?env emptyProvider (server ?g)
             = (Inr sampleClient, emptyProvider\<lparr>clients := [''gitea.example.com'' \<mapsto> sampleClient]\<rparr>)"
    using client_sample by simp
  have r: "request (network ?env) sampleClient
             (contentsEndpoint (owner ?g) (repo ?g) (path ?g) (refOrHead ?g)) GET None []
           = (Inr (Listing sampleEntries), detectedClient,
              [httpsProbe ''https://gitea.example.com'',
               requestCall detectedClient ''/repos/bob/foo/contents/src?ref=HEAD'' GET None])"
    using request_sample_dir
    by (simp add: sampleEnv_def contentsEndpoint_def repoEndpoint_def refOrHead_def)
  note t = stat_reports_files_only[of ?env emptyProvider ?uri "[]", THEN conjunct2, rule_format,
      OF conjI[OF p conjI[OF c r]]]
  have dir: "fst (stat ?env emptyProvider ?uri []) = Inl (FileNotFound ?uri)
       \<and> fst (readDirectory ?env emptyProvider ?uri [])
           = Inr (map (\<lambda>entry. (entryName entry,
                                      if entryType entry = ''dir'' then Directory else File))
                       sampleEntries)"
    using t by simp
  let ?uri2 = "''gitea://gitea.example.com/bob/foo/README.md''"
  let ?env2 = "sampleEnv fileNetwork"
  have ipv: "ipv6Parser ?env2 = (\<lambda>s. None)" and net: "network ?env2 = fileNetwork"
    by (simp_all add: sampleEnv_def)
  have fetched: "fetchContent ?env2 emptyProvider ?uri2 []
      = (Inr ''hello'', emptyProvider\<lparr>clients := [''gitea.example.com'' \<mapsto> detectedClient]\<rparr>,
         [httpsProbe ''https://gitea.example.com'',
        requestCall detectedClient ''/repos/bob/foo/contents/README.md?ref=HEAD'' GET None])"
    unfolding fetchContent_def ipv net parse_sample
    by (simp add: client_sample content_sample refOrHead_def putClient_def)
  have regular: "\<exists>fs' log'. stat ?env2 emptyProvider ?uri2 []
             = (Inr \<lparr>fileType = File, ctime = 1700000000, mtime = 1700000001, fileSize = 5\<rparr>,
                fs', log')"
    unfolding stat_def fetched
    by (simp add: sampleEnv_def textEncode_def)
  from dir regular show ?thesis
    unfolding Let_def by (simp add: sampleEntries_def)
qed

end
